theory Spec2Isabelle
  imports Complex_Main "HOL-Library.Sublist" "HOL-Library.AList"
begin

section \<open>Python values\<close>

text \<open>
  The service \<^verbatim>\<open>railway_deploy/app.py\<close> handles JSON documents: the request body, the
  correction tables \<^verbatim>\<open>patrones\<close> and the response bodies. A JSON document, once parsed
  by Python, is one of the values below. A dict is an association list read with
  \<^const>\<open>map_of\<close>; a Python dict has no duplicate keys. Strings are the UTF-8 bytes of the
  Python string. A Python float is idealised as the real number it denotes, and so is the
  product of two floats: the rounding of a product to the nearest float, infinities and
  NaN are outside this model.
\<close>

datatype pyval =
    PNone
  | PBool bool
  | PInt int
  | PFloat real
  | PStr string
  | PList "pyval list"
  | PDict "(string \<times> pyval) list"

text \<open>The exceptions that the modelled code can meet. The last three come from outside:
  \<^verbatim>\<open>request.json\<close> of Flask and \<^verbatim>\<open>modelo.predict\<close>.\<close>

datatype exn =
    TypeError
  | AttributeError
  | KeyError
  | OverflowError
  | ValueError
  | BadRequest
  | UnsupportedMediaType

definition bind_exn :: "exn + 'a \<Rightarrow> ('a \<Rightarrow> exn + 'b) \<Rightarrow> exn + 'b" where
  "bind_exn m f = (case m of Inl e \<Rightarrow> Inl e | Inr x \<Rightarrow> f x)"

text \<open>Truth value of a Python object, as tested by \<^verbatim>\<open>if x:\<close>, \<^verbatim>\<open>not x\<close> and \<^verbatim>\<open>bool(x)\<close>.\<close>

fun truthy :: "pyval \<Rightarrow> bool" where
  "truthy PNone = False"
| "truthy (PBool b) = b"
| "truthy (PInt i) = (i \<noteq> 0)"
| "truthy (PFloat r) = (r \<noteq> 0)"
| "truthy (PStr s) = (s \<noteq> [])"
| "truthy (PList xs) = (xs \<noteq> [])"
| "truthy (PDict kvs) = (kvs \<noteq> [])"

text \<open>\<^verbatim>\<open>obj[key]\<close> with a string key: only a dict can be read that way.\<close>

fun py_getitem :: "pyval \<Rightarrow> string \<Rightarrow> exn + pyval" where
  "py_getitem (PDict kvs) k = (case map_of kvs k of Some v \<Rightarrow> Inr v | None \<Rightarrow> Inl KeyError)"
| "py_getitem _ k = Inl TypeError"

text \<open>\<^verbatim>\<open>key in obj\<close> with a string key: key of a dict, element of a list, substring of a
  string; the other values are not iterable.\<close>

fun py_in :: "string \<Rightarrow> pyval \<Rightarrow> exn + bool" where
  "py_in k (PDict kvs) = Inr (k \<in> set (map fst kvs))"
| "py_in k (PList xs) = Inr (PStr k \<in> set xs)"
| "py_in k (PStr s) = Inr (sublist k s)"
| "py_in k _ = Inl TypeError"

text \<open>\<^verbatim>\<open>obj.get(key, default)\<close>: only a dict has the method.\<close>

fun py_get :: "pyval \<Rightarrow> string \<Rightarrow> pyval \<Rightarrow> exn + pyval" where
  "py_get (PDict kvs) k d = Inr (case map_of kvs k of Some v \<Rightarrow> v | None \<Rightarrow> d)"
| "py_get _ k d = Inl AttributeError"

text \<open>The number a factor stands for: an int, a float or a bool.\<close>

fun num_of :: "pyval \<Rightarrow> real option" where
  "num_of (PInt i) = Some (of_int i)"
| "num_of (PFloat r) = Some r"
| "num_of (PBool b) = Some (if b then 1 else 0)"
| "num_of _ = None"

text \<open>\<^verbatim>\<open>factor_total *= factor\<close>, a float times a value. A float or a bool is multiplied. An
  int is first converted to a float, which raises OverflowError when the int does not
  round to a finite float, that is from \<open>2\<^sup>1\<^sup>0\<^sup>2\<^sup>4 - 2\<^sup>9\<^sup>7\<^sup>0\<close> on in absolute value. Any other
  operand is a TypeError.\<close>

fun py_float_mul :: "real \<Rightarrow> pyval \<Rightarrow> exn + real" where
  "py_float_mul x (PInt i) =
     (if 2 ^ 1024 - 2 ^ 970 \<le> \<bar>i\<bar> then Inl OverflowError else Inr (x * of_int i))"
| "py_float_mul x (PFloat r) = Inr (x * r)"
| "py_float_mul x (PBool b) = Inr (x * (if b then 1 else 0))"
| "py_float_mul x _ = Inl TypeError"

text \<open>\<^verbatim>\<open>str(x)\<close>. The decimal form of an int is computed here.\<close>

fun str_nat :: "nat \<Rightarrow> string" where
  "str_nat n =
     (if n < 10 then [''0123456789'' ! n]
      else str_nat (n div 10) @ [''0123456789'' ! (n mod 10)])"

definition str_int :: "int \<Rightarrow> string" where
  "str_int i = (if i < 0 then CHR ''-'' # str_nat (nat (- i)) else str_nat (nat i))"

section \<open>Module state\<close>

text \<open>
  The globals \<^verbatim>\<open>modelo\<close>, \<^verbatim>\<open>features_info\<close> and \<^verbatim>\<open>patrones\<close>, set once by
  \<^verbatim>\<open>cargar_modelo\<close> and read by every request. \<open>modelo\<close> is \<open>None\<close> when it was not loaded,
  else the function \<^verbatim>\<open>modelo.predict(df)[0]\<close> of the trained regressor on one row, which
  may raise. \<open>features_info\<close> is \<open>None\<close> when it was not loaded, else the list
  \<^verbatim>\<open>features_info['features']\<close> of the loaded document, taken to be a list of strings.
  \<open>patrones\<close> is the loaded JSON document, \<open>PNone\<close> when it was not loaded.
  Four more fields stand for built-ins of the Python runtime, which the service calls and
  does not define: \<open>str_exn\<close> is \<^verbatim>\<open>str(e)\<close> of an exception, \<open>repr_py\<close> is \<^verbatim>\<open>str(x)\<close> of a
  float, a list or a dict, \<open>upper_py\<close> is \<^verbatim>\<open>s.upper()\<close> of a string (all of Unicode), and
  \<open>round_py\<close> is \<^verbatim>\<open>round(x, n)\<close> of the float that the code holds for \<open>x\<close>.
\<close>

record env =
  modelo :: "(pyval list \<Rightarrow> exn + real) option"
  features_info :: "string list option"
  patrones :: pyval
  str_exn :: "exn \<Rightarrow> string"
  repr_py :: "pyval \<Rightarrow> string"
  upper_py :: "string \<Rightarrow> string"
  round_py :: "real \<Rightarrow> nat \<Rightarrow> real"

fun py_str :: "env \<Rightarrow> pyval \<Rightarrow> string" where
  "py_str env (PStr s) = s"
| "py_str env (PInt i) = str_int i"
| "py_str env (PBool b) = (if b then ''True'' else ''False'')"
| "py_str env PNone = ''None''"
| "py_str env v = repr_py env v"

text \<open>\<^verbatim>\<open>s.upper()\<close>: only a string has the method.\<close>

fun py_upper :: "env \<Rightarrow> pyval \<Rightarrow> exn + string" where
  "py_upper env (PStr s) = Inr (upper_py env s)"
| "py_upper env _ = Inl AttributeError"

section \<open>The correction engine: \<^verbatim>\<open>aplicar_correccion_avanzada\<close>\<close>

text \<open>The dict returned by the engine.\<close>

record resultado =
  prediccion_corregida :: real
  factores_aplicados :: pyval
  factor_total :: real

text \<open>The running state of the \<^verbatim>\<open>try\<close> block: \<^verbatim>\<open>factor_total\<close> and the dict
  \<^verbatim>\<open>factores_aplicados\<close>.\<close>

type_synonym factores = "real \<times> (string \<times> pyval) list"

definition factores_iniciales :: factores where
  "factores_iniciales =
     (1, [(''provincia'', PFloat 1), (''dia_semana'', PFloat 1),
          (''vacaciones'', PFloat 1), (''estacional'', PFloat 1)])"

text \<open>Lines 53-58, the province: \<^verbatim>\<open>provincia.upper()\<close>, the membership test in
  \<^verbatim>\<open>patrones['PATRONES_PROVINCIA']\<close>, and when it holds the entry's \<^verbatim>\<open>factor_base\<close>.\<close>

definition correccion_provincia :: "env \<Rightarrow> pyval \<Rightarrow> factores \<Rightarrow> exn + factores" where
  "correccion_provincia env provincia st =
     bind_exn (py_upper env provincia) (\<lambda>provincia_upper.
     bind_exn (py_getitem (patrones env) ''PATRONES_PROVINCIA'') (\<lambda>tabla.
     bind_exn (py_in provincia_upper tabla) (\<lambda>esta.
       if esta then
         bind_exn (py_getitem tabla provincia_upper) (\<lambda>entrada.
         bind_exn (py_get entrada ''factor_base'' (PFloat 1)) (\<lambda>factor_provincia.
         bind_exn (py_float_mul (fst st) factor_provincia) (\<lambda>ft.
           Inr (ft, AList.update ''provincia'' factor_provincia (snd st)))))
       else Inr st)))"

text \<open>Lines 60-64, the weekday: the key is \<^verbatim>\<open>str(dia_semana)\<close>.\<close>

definition correccion_dia_semana :: "env \<Rightarrow> pyval \<Rightarrow> factores \<Rightarrow> exn + factores" where
  "correccion_dia_semana env dia_semana st =
     bind_exn (py_getitem (patrones env) ''PATRONES_DIA_SEMANA'') (\<lambda>tabla.
     bind_exn (py_in (py_str env dia_semana) tabla) (\<lambda>esta.
       if esta then
         bind_exn (py_getitem tabla (py_str env dia_semana)) (\<lambda>entrada.
         bind_exn (py_get entrada ''factor'' (PFloat 1)) (\<lambda>factor_dia.
         bind_exn (py_float_mul (fst st) factor_dia) (\<lambda>ft.
           Inr (ft, AList.update ''dia_semana'' factor_dia (snd st)))))
       else Inr st))"

text \<open>Lines 66-70, the holiday flag.\<close>

definition correccion_vacaciones :: "pyval \<Rightarrow> factores \<Rightarrow> factores" where
  "correccion_vacaciones es_vacaciones st =
     (if truthy es_vacaciones
      then (fst st * 1.15, AList.update ''vacaciones'' (PFloat 1.15) (snd st))
      else st)"

text \<open>Lines 72-90, the month. The table has the int keys 1 to 12.
  \<^verbatim>\<open>factores_estacionales.get(mes, 1.0)\<close> hashes \<^verbatim>\<open>mes\<close>: a list or a dict is unhashable
  (TypeError); a float or a bool equal to an int key finds that key, as Python's dict
  does; a string or \<^verbatim>\<open>None\<close> finds nothing.\<close>

definition factores_estacionales :: "(int \<times> real) list" where
  "factores_estacionales =
     [(1, 1.1), (2, 1.05), (3, 0.95), (4, 0.9), (5, 0.9), (6, 1.2),
      (7, 1.25), (8, 1.3), (9, 0.9), (10, 0.95), (11, 1.0), (12, 1.15)]"

fun get_estacional :: "pyval \<Rightarrow> real \<Rightarrow> exn + real" where
  "get_estacional (PInt i) d =
     Inr (case map_of factores_estacionales i of Some v \<Rightarrow> v | None \<Rightarrow> d)"
| "get_estacional (PBool b) d =
     Inr (case map_of factores_estacionales (if b then 1 else 0) of Some v \<Rightarrow> v | None \<Rightarrow> d)"
| "get_estacional (PFloat r) d =
     Inr (if r = of_int \<lfloor>r\<rfloor>
          then (case map_of factores_estacionales \<lfloor>r\<rfloor> of Some v \<Rightarrow> v | None \<Rightarrow> d)
          else d)"
| "get_estacional (PList xs) d = Inl TypeError"
| "get_estacional (PDict kvs) d = Inl TypeError"
| "get_estacional _ d = Inr d"

definition correccion_estacional :: "pyval \<Rightarrow> factores \<Rightarrow> exn + factores" where
  "correccion_estacional mes st =
     bind_exn (get_estacional mes 1.0) (\<lambda>factor_estacional.
       Inr (fst st * factor_estacional,
            AList.update ''estacional'' (PFloat factor_estacional) (snd st)))"

text \<open>The \<^verbatim>\<open>try\<close> block, lines 44-99.\<close>

definition aplicar_try ::
  "env \<Rightarrow> real \<Rightarrow> pyval \<Rightarrow> pyval \<Rightarrow> pyval \<Rightarrow> pyval \<Rightarrow> exn + resultado" where
  "aplicar_try env prediccion_base provincia dia_semana es_vacaciones mes =
     bind_exn (correccion_provincia env provincia factores_iniciales) (\<lambda>st1.
     bind_exn (correccion_dia_semana env dia_semana st1) (\<lambda>st2.
     bind_exn (correccion_estacional mes (correccion_vacaciones es_vacaciones st2)) (\<lambda>st4.
       Inr \<lparr>prediccion_corregida = prediccion_base * fst st4,
            factores_aplicados = PDict (snd st4),
            factor_total = fst st4\<rparr>)))"

text \<open>The function with its \<^verbatim>\<open>except Exception\<close> clause, lines 101-107.\<close>

definition aplicar_correccion_avanzada ::
  "env \<Rightarrow> real \<Rightarrow> pyval \<Rightarrow> pyval \<Rightarrow> pyval \<Rightarrow> pyval \<Rightarrow> resultado" where
  "aplicar_correccion_avanzada env prediccion_base provincia dia_semana es_vacaciones mes =
     (case aplicar_try env prediccion_base provincia dia_semana es_vacaciones mes of
        Inr r \<Rightarrow> r
      | Inl e \<Rightarrow> \<lparr>prediccion_corregida = prediccion_base,
                  factores_aplicados = PDict [(''error'', PStr (str_exn env e))],
                  factor_total = 1.0\<rparr>)"

section \<open>The categorizer: \<^verbatim>\<open>categorizar_afluencia\<close>\<close>

record categoria_info =
  categoria :: string
  emoji :: string
  recomendacion :: string

definition fuego :: string where
  "fuego = [CHR 0xF0, CHR 0x9F, CHR 0x94, CHR 0xA5]"

definition copo :: string where
  "copo = [CHR 0xE2, CHR 0x9D, CHR 0x84, CHR 0xEF, CHR 0xB8, CHR 0x8F]"

definition categorizar_afluencia :: "real \<Rightarrow> categoria_info" where
  "categorizar_afluencia afluencia =
     (if afluencia \<ge> 35 then
        \<lparr>categoria = ''MUY ALTA'', emoji = fuego @ fuego @ fuego,
         recomendacion = ''Excelente d'' @ [CHR 0xC3, CHR 0xAD] @ ''a para turismo - alta demanda''\<rparr>
      else if afluencia \<ge> 25 then
        \<lparr>categoria = ''ALTA'', emoji = fuego @ fuego,
         recomendacion = ''Muy buen d'' @ [CHR 0xC3, CHR 0xAD] @ ''a para actividades tur''
                           @ [CHR 0xC3, CHR 0xAD] @ ''sticas''\<rparr>
      else if afluencia \<ge> 15 then
        \<lparr>categoria = ''MEDIA'', emoji = fuego,
         recomendacion = ''D'' @ [CHR 0xC3, CHR 0xAD] @ ''a moderado para turismo''\<rparr>
      else
        \<lparr>categoria = ''BAJA'', emoji = copo,
         recomendacion = ''D'' @ [CHR 0xC3, CHR 0xAD] @ ''a tranquilo, menos turismo''\<rparr>)"

text \<open>The four bands in their order, lowest first.\<close>

definition nivel :: "string \<Rightarrow> nat" where
  "nivel c = (if c = ''MUY ALTA'' then 3 else if c = ''ALTA'' then 2
              else if c = ''MEDIA'' then 1 else 0)"

section \<open>The request handlers\<close>

text \<open>
  What a handler reads of the request: \<^verbatim>\<open>request.json\<close>, which is the parsed body, \<open>PNone\<close>
  when Flask finds no JSON and says nothing, or an exception of Flask (an empty or
  malformed body, a wrong content type); and \<^verbatim>\<open>datetime.now().isoformat()\<close>.
  A response is the HTTP status with the dict given to \<^verbatim>\<open>jsonify\<close>.
\<close>

record request =
  json :: "exn + pyval"
  now :: string

type_synonym response = "nat \<times> pyval"

text \<open>
  The feature aligner, lines 188-196 (and 262-269). \<^verbatim>\<open>pd.DataFrame([data])\<close> is a frame of
  one row: its columns are the keys of \<^verbatim>\<open>data\<close>, in order, each with its value. A body that
  is not a dict gives a frame with integer column labels, that is with no column named
  by a string.
\<close>

type_synonym dataframe = "(string \<times> pyval) list"

definition DataFrame :: "pyval \<Rightarrow> dataframe" where
  "DataFrame data = (case data of PDict kvs \<Rightarrow> kvs | _ \<Rightarrow> [])"

text \<open>The loop \<^verbatim>\<open>for feature in features_info['features']\<close>: a missing column is added
  with the value 0.\<close>

fun completar_features :: "string list \<Rightarrow> dataframe \<Rightarrow> dataframe" where
  "completar_features [] df = df"
| "completar_features (feature # fs) df =
     completar_features fs
       (if feature \<notin> set (map fst df) then df @ [(feature, PInt 0)] else df)"

text \<open>\<^verbatim>\<open>df_input[features_info['features']]\<close>: the row in the order of the schema; a
  missing column is a KeyError.\<close>

fun ordenar_columnas :: "dataframe \<Rightarrow> string list \<Rightarrow> exn + pyval list" where
  "ordenar_columnas df [] = Inr []"
| "ordenar_columnas df (feature # fs) =
     (case map_of df feature of
        None \<Rightarrow> Inl KeyError
      | Some v \<Rightarrow> bind_exn (ordenar_columnas df fs) (\<lambda>vs. Inr (v # vs)))"

text \<open>\<^verbatim>\<open>features_info['features']\<close> and \<^verbatim>\<open>float(modelo.predict(df_input)[0])\<close>, which fail
  on \<^verbatim>\<open>None\<close>.\<close>

definition features_de :: "env \<Rightarrow> exn + string list" where
  "features_de env = (case features_info env of None \<Rightarrow> Inl TypeError | Some fs \<Rightarrow> Inr fs)"

definition modelo_predict :: "env \<Rightarrow> pyval list \<Rightarrow> exn + real" where
  "modelo_predict env fila = (case modelo env of None \<Rightarrow> Inl AttributeError | Some m \<Rightarrow> m fila)"

definition alinear :: "env \<Rightarrow> pyval \<Rightarrow> exn + pyval list" where
  "alinear env data =
     bind_exn (features_de env) (\<lambda>features.
       ordenar_columnas (completar_features features (DataFrame data)) features)"

text \<open>\<^verbatim>\<open>POST /predict\<close>: the \<^verbatim>\<open>try\<close> block, lines 177-244.\<close>

definition predict_try :: "env \<Rightarrow> request \<Rightarrow> exn + response" where
  "predict_try env rq =
     (if modelo env = None \<or> features_info env = None then
        Inr (500, PDict [(''error'', PStr ''Modelo no cargado correctamente'')])
      else
        bind_exn (json rq) (\<lambda>data.
          if \<not> truthy data then
            Inr (400, PDict [(''error'', PStr ''No se enviaron datos'')])
          else
            bind_exn (alinear env data) (\<lambda>df_input.
            bind_exn (modelo_predict env df_input) (\<lambda>prediccion_base.
            bind_exn (py_get data ''provincia'' (PStr ''PICHINCHA'')) (\<lambda>provincia.
            bind_exn (py_get data ''dia_semana'' (PInt 1)) (\<lambda>dia_semana.
            bind_exn (py_get data ''Es_Vacaciones'' (PInt 0)) (\<lambda>es_vacaciones.
            bind_exn (py_get data ''Mes'' (PInt 1)) (\<lambda>mes.
              let resultado_correccion =
                    aplicar_correccion_avanzada env prediccion_base provincia dia_semana
                      es_vacaciones mes;
                  afluencia_final = prediccion_corregida resultado_correccion;
                  categoria_info = categorizar_afluencia afluencia_final
              in
                bind_exn (py_upper env provincia) (\<lambda>provincia_upper.
                  Inr (200, PDict
                    [(''prediccion'', PDict
                        [(''afluencia'', PFloat (round_py env afluencia_final 2)),
                         (''prediccion_base'', PFloat (round_py env prediccion_base 2)),
                         (''categoria'', PStr (categoria categoria_info)),
                         (''emoji'', PStr (emoji categoria_info)),
                         (''recomendacion'', PStr (recomendacion categoria_info))]),
                     (''detalles'', PDict
                        [(''provincia'', PStr provincia_upper),
                         (''dia_semana'', dia_semana),
                         (''mes'', mes),
                         (''es_vacaciones'', PBool (truthy es_vacaciones)),
                         (''factores_aplicados'', factores_aplicados resultado_correccion),
                         (''factor_total'',
                            PFloat (round_py env (factor_total resultado_correccion) 3))]),
                     (''metadata'', PDict
                        [(''timestamp'', PStr (now rq)),
                         (''modelo'', PStr ''RandomForest - Turismo Ecuador v1.0''),
                         (''status'', PStr ''success'')])]))))))))))"

text \<open>\<^verbatim>\<open>POST /predict\<close> with its \<^verbatim>\<open>except Exception\<close> clause, lines 246-251.\<close>

definition predict :: "env \<Rightarrow> request \<Rightarrow> response" where
  "predict env rq =
     (case predict_try env rq of
        Inr r \<Rightarrow> r
      | Inl e \<Rightarrow>
          (400, PDict
             [(''error'', PStr (''Error en predicci'' @ [CHR 0xC3, CHR 0xB3] @ ''n: ''
                                  @ str_exn env e)),
              (''status'', PStr ''error''),
              (''timestamp'', PStr (now rq))]))"

text \<open>\<^verbatim>\<open>POST /predict/simple\<close>: the \<^verbatim>\<open>try\<close> block, lines 256-287.\<close>

definition predict_simple_try :: "env \<Rightarrow> request \<Rightarrow> exn + response" where
  "predict_simple_try env rq =
     bind_exn (json rq) (\<lambda>data.
       if \<not> truthy data then
         Inr (400, PDict [(''error'', PStr ''No data provided'')])
       else
         bind_exn (alinear env data) (\<lambda>df_input.
         bind_exn (modelo_predict env df_input) (\<lambda>prediccion.
         bind_exn (py_get data ''provincia'' (PStr ''PICHINCHA'')) (\<lambda>provincia.
         bind_exn (py_get data ''dia_semana'' (PInt 1)) (\<lambda>dia_semana.
         bind_exn (py_get data ''Mes'' (PInt 1)) (\<lambda>mes.
           let resultado =
                 aplicar_correccion_avanzada env prediccion provincia dia_semana (PInt 0) mes;
               afluencia = round_py env (prediccion_corregida resultado) 2
           in
             Inr (200, PDict
               [(''afluencia'', PFloat afluencia),
                (''categoria'', PStr (categoria (categorizar_afluencia afluencia))),
                (''success'', PBool True)])))))))"

text \<open>\<^verbatim>\<open>POST /predict/simple\<close> with its \<^verbatim>\<open>except Exception\<close> clause, lines 289-290.\<close>

definition predict_simple :: "env \<Rightarrow> request \<Rightarrow> response" where
  "predict_simple env rq =
     (case predict_simple_try env rq of
        Inr r \<Rightarrow> r
      | Inl e \<Rightarrow> (400, PDict [(''error'', PStr (str_exn env e)), (''success'', PBool False)]))"

section \<open>Auxiliary definitions and sample inputs\<close>

text \<open>The shape of the running state: the four keys in their order.\<close>

definition desglose :: "pyval \<Rightarrow> pyval \<Rightarrow> pyval \<Rightarrow> pyval \<Rightarrow> (string \<times> pyval) list" where
  "desglose p d v e =
     [(''provincia'', p), (''dia_semana'', d), (''vacaciones'', v), (''estacional'', e)]"

text \<open>Two built-ins for the sample services below. On text of ASCII letters \<^verbatim>\<open>s.upper()\<close>
  maps each small letter to its capital. Away from a tie \<^verbatim>\<open>round(x, n)\<close> is the multiple of
  \<open>10\<^sup>-\<^sup>n\<close> nearest to \<open>x\<close>. The samples use ASCII text and round no tie.\<close>

definition upper_char :: "char \<Rightarrow> char" where
  "upper_char c =
     (case map_of (zip ''abcdefghijklmnopqrstuvwxyz'' ''ABCDEFGHIJKLMNOPQRSTUVWXYZ'') c of
        Some u \<Rightarrow> u | None \<Rightarrow> c)"

definition round_half_even :: "real \<Rightarrow> int" where
  "round_half_even y =
     (let f = \<lfloor>y\<rfloor>; d = y - of_int f
      in if d < 1 / 2 then f else if 1 / 2 < d then f + 1 else if even f then f else f + 1)"

definition py_round :: "real \<Rightarrow> nat \<Rightarrow> real" where
  "py_round x n = of_int (round_half_even (x * 10 ^ n)) / 10 ^ n"

text \<open>Correction tables with one province and one weekday, and a loaded service whose
  regressor answers 34.996 on every row.\<close>

definition patrones_ej :: pyval where
  "patrones_ej = PDict
     [(''PATRONES_PROVINCIA'', PDict [(''GUAYAS'', PDict [(''factor_base'', PFloat 1.2)])]),
      (''PATRONES_DIA_SEMANA'', PDict [(''6'', PDict [(''factor'', PFloat 1.1)])])]"

definition base_ej :: real where
  "base_ej = 34.996"

definition env_ej :: env where
  "env_ej = \<lparr>modelo = Some (\<lambda>fila. Inr base_ej),
             features_info = Some [''Mes'', ''temperatura''],
             patrones = patrones_ej,
             str_exn = (\<lambda>e. ''error''),
             repr_py = (\<lambda>v. ''?''),
             upper_py = map upper_char,
             round_py = py_round\<rparr>"

text \<open>Reading a response body: the field \<open>k\<close> of a dict, and the field \<open>k2\<close> of its
  field \<open>k1\<close>.\<close>

fun campo :: "string \<Rightarrow> pyval \<Rightarrow> pyval option" where
  "campo k (PDict kvs) = map_of kvs k"
| "campo k _ = None"

definition campo2 :: "string \<Rightarrow> string \<Rightarrow> pyval \<Rightarrow> pyval option" where
  "campo2 k1 k2 v = (case campo k1 v of Some d \<Rightarrow> campo k2 d | None \<Rightarrow> None)"

text \<open>The value of \<^verbatim>\<open>data.get(k, d)\<close> on the items of a dict, and the row that the aligner
  builds from them.\<close>

definition parametro :: "(string \<times> pyval) list \<Rightarrow> string \<Rightarrow> pyval \<Rightarrow> pyval" where
  "parametro kvs k d = (case map_of kvs k of Some v \<Rightarrow> v | None \<Rightarrow> d)"

definition fila_de :: "string list \<Rightarrow> (string \<times> pyval) list \<Rightarrow> pyval list" where
  "fila_de fs kvs = map (\<lambda>f. parametro kvs f (PInt 0)) fs"

text \<open>Sample requests: a province outside the tables in November; no JSON body; the
  number 5 as province; the empty object; a holiday in July. Sample services: one whose
  model was not loaded, one whose province table holds a string where an entry should be
  a dict, and one whose correction tables were not loaded. Whether a value is a string.\<close>

fun es_texto :: "pyval \<Rightarrow> bool" where
  "es_texto (PStr s) = True"
| "es_texto _ = False"

definition rq_julio :: request where
  "rq_julio =
     \<lparr>json = Inr (PDict [(''provincia'', PStr ''azuay''), (''dia_semana'', PInt 2),
                         (''Es_Vacaciones'', PInt 1), (''Mes'', PInt 7)]),
      now = ''2024-07-03T10:00:00''\<rparr>"

definition env_sin_patrones :: env where
  "env_sin_patrones = env_ej\<lparr>patrones := PNone\<rparr>"

definition rq_azuay :: request where
  "rq_azuay =
     \<lparr>json = Inr (PDict [(''provincia'', PStr ''azuay''), (''dia_semana'', PInt 2),
                         (''Mes'', PInt 11)]),
      now = ''2024-11-03T10:00:00''\<rparr>"

definition rq_sin_cuerpo :: request where
  "rq_sin_cuerpo = \<lparr>json = Inr PNone, now = ''2024-11-03T10:00:00''\<rparr>"

definition rq_provincia_5 :: request where
  "rq_provincia_5 = \<lparr>json = Inr (PDict [(''provincia'', PInt 5)]), now = ''2024-11-03T10:00:00''\<rparr>"

definition env_sin_modelo :: env where
  "env_sin_modelo = env_ej\<lparr>modelo := None\<rparr>"

definition env_tabla_rota :: env where
  "env_tabla_rota =
     env_ej\<lparr>patrones := PDict
       [(''PATRONES_PROVINCIA'', PDict [(''AZUAY'', PStr ''1.2'')]),
        (''PATRONES_DIA_SEMANA'', PDict [])]\<rparr>"

definition rq_objeto_vacio :: request where
  "rq_objeto_vacio = \<lparr>json = Inr (PDict []), now = ''2024-11-03T10:00:00''\<rparr>"

section \<open>Properties of the correction engine and the categorizer\<close>

lemma bind_exn_Inl [simp]: "bind_exn (Inl e) f = Inl e"
  by (simp add: bind_exn_def)

lemma bind_exn_Inr [simp]: "bind_exn (Inr x) f = f x"
  by (simp add: bind_exn_def)

lemma bind_exn_eq_Inr: "bind_exn m f = Inr y \<longleftrightarrow> (\<exists>x. m = Inr x \<and> f x = Inr y)"
  by (cases m) simp_all

lemma py_float_mul_Inr: "py_float_mul x v = Inr y \<Longrightarrow> \<exists>z. num_of v = Some z \<and> y = x * z"
  by (cases v) (auto split: if_splits)

lemma correccion_provincia_Inr:
  assumes "correccion_provincia env prov (ft, desglose p d v e) = Inr st"
  shows "\<exists>s tabla. prov = PStr s \<and> py_getitem (patrones env) ''PATRONES_PROVINCIA'' = Inr tabla \<and>
           ((py_in (upper_py env s) tabla = Inr False \<and> st = (ft, desglose p d v e)) \<or>
            (\<exists>f x. py_in (upper_py env s) tabla = Inr True \<and> num_of f = Some x \<and>
                   st = (ft * x, desglose f d v e)))"
proof -
  from assms obtain s where s: "prov = PStr s"
    by (cases prov) (simp_all add: correccion_provincia_def)
  from assms s obtain tabla where t: "py_getitem (patrones env) ''PATRONES_PROVINCIA'' = Inr tabla"
    by (auto simp: correccion_provincia_def bind_exn_eq_Inr)
  from assms s t obtain esta where e: "py_in (upper_py env s) tabla = Inr esta"
    by (auto simp: correccion_provincia_def bind_exn_eq_Inr)
  show ?thesis
  proof (cases esta)
    case False
    with assms s t e show ?thesis by (simp add: correccion_provincia_def)
  next
    case True
    with assms s t e show ?thesis
      by (auto simp: correccion_provincia_def bind_exn_eq_Inr py_float_mul_Inr desglose_def)
  qed
qed

lemma correccion_dia_semana_Inr:
  assumes "correccion_dia_semana env dia (ft, desglose p d v e) = Inr st"
  shows "\<exists>tabla. py_getitem (patrones env) ''PATRONES_DIA_SEMANA'' = Inr tabla \<and>
           ((py_in (py_str env dia) tabla = Inr False \<and> st = (ft, desglose p d v e)) \<or>
            (\<exists>f x. py_in (py_str env dia) tabla = Inr True \<and> num_of f = Some x \<and>
                   st = (ft * x, desglose p f v e)))"
proof -
  from assms obtain tabla where t: "py_getitem (patrones env) ''PATRONES_DIA_SEMANA'' = Inr tabla"
    by (auto simp: correccion_dia_semana_def bind_exn_eq_Inr)
  from assms t obtain esta where e: "py_in (py_str env dia) tabla = Inr esta"
    by (auto simp: correccion_dia_semana_def bind_exn_eq_Inr)
  show ?thesis
  proof (cases esta)
    case False
    with assms t e show ?thesis by (simp add: correccion_dia_semana_def)
  next
    case True
    with assms t e show ?thesis
      by (auto simp: correccion_dia_semana_def bind_exn_eq_Inr py_float_mul_Inr desglose_def)
  qed
qed

lemma correccion_vacaciones_eq:
  "correccion_vacaciones vac (ft, desglose p d v e) =
     (if truthy vac then (ft * 1.15, desglose p d (PFloat 1.15) e) else (ft, desglose p d v e))"
  by (simp add: correccion_vacaciones_def desglose_def)

lemma correccion_estacional_Inr:
  assumes "correccion_estacional mes (ft, desglose p d v e) = Inr st"
  shows "\<exists>x. get_estacional mes 1 = Inr x \<and> st = (ft * x, desglose p d v (PFloat x))"
  using assms by (auto simp: correccion_estacional_def bind_exn_eq_Inr desglose_def)

lemma aplicar_try_Inr:
  assumes "aplicar_try env base prov dia vac mes = Inr r"
  shows "\<exists>s tp td fp fd xp xd xe.
           prov = PStr s \<and>
           py_getitem (patrones env) ''PATRONES_PROVINCIA'' = Inr tp \<and>
           py_getitem (patrones env) ''PATRONES_DIA_SEMANA'' = Inr td \<and>
           (py_in (upper_py env s) tp = Inr False \<and> fp = PFloat 1 \<or>
            py_in (upper_py env s) tp = Inr True) \<and>
           (py_in (py_str env dia) td = Inr False \<and> fd = PFloat 1 \<or>
            py_in (py_str env dia) td = Inr True) \<and>
           num_of fp = Some xp \<and> num_of fd = Some xd \<and> get_estacional mes 1 = Inr xe \<and>
           r = \<lparr>prediccion_corregida = base * (xp * xd * (if truthy vac then 1.15 else 1) * xe),
                factores_aplicados =
                  PDict (desglose fp fd (PFloat (if truthy vac then 1.15 else 1)) (PFloat xe)),
                factor_total = xp * xd * (if truthy vac then 1.15 else 1) * xe\<rparr>"
proof -
  have ini: "factores_iniciales = (1, desglose (PFloat 1) (PFloat 1) (PFloat 1) (PFloat 1))"
    by (simp add: factores_iniciales_def desglose_def)
  from assms obtain st1 st2 st4 where
    s1: "correccion_provincia env prov (1, desglose (PFloat 1) (PFloat 1) (PFloat 1) (PFloat 1)) = Inr st1"
    and s2: "correccion_dia_semana env dia st1 = Inr st2"
    and s4: "correccion_estacional mes (correccion_vacaciones vac st2) = Inr st4"
    and r: "r = \<lparr>prediccion_corregida = base * fst st4, factores_aplicados = PDict (snd st4),
                 factor_total = fst st4\<rparr>"
    unfolding aplicar_try_def ini bind_exn_eq_Inr by auto
  from correccion_provincia_Inr [OF s1] obtain s tp fp xp where
    p: "prov = PStr s" "py_getitem (patrones env) ''PATRONES_PROVINCIA'' = Inr tp"
       "py_in (upper_py env s) tp = Inr False \<and> fp = PFloat 1 \<or>
        py_in (upper_py env s) tp = Inr True"
       "num_of fp = Some xp" "st1 = (xp, desglose fp (PFloat 1) (PFloat 1) (PFloat 1))"
    by fastforce
  from correccion_dia_semana_Inr [OF s2 [unfolded p(5)]] obtain td fd xd where
    d: "py_getitem (patrones env) ''PATRONES_DIA_SEMANA'' = Inr td"
       "py_in (py_str env dia) td = Inr False \<and> fd = PFloat 1 \<or>
        py_in (py_str env dia) td = Inr True"
       "num_of fd = Some xd" "st2 = (xp * xd, desglose fp fd (PFloat 1) (PFloat 1))"
    by fastforce
  define xv :: real where "xv = (if truthy vac then 1.15 else 1)"
  have v: "correccion_vacaciones vac st2 = (xp * xd * xv, desglose fp fd (PFloat xv) (PFloat 1))"
    by (simp add: d(4) correccion_vacaciones_eq xv_def)
  from correccion_estacional_Inr [OF s4 [unfolded v]] obtain xe where
    e: "get_estacional mes 1 = Inr xe" "st4 = (xp * xd * xv * xe, desglose fp fd (PFloat xv) (PFloat xe))"
    by blast
  show ?thesis
    using p(1-4) d(1-3) e r unfolding xv_def by (intro exI conjI) (assumption | simp)+
qed

lemma aplicar_normal:
  "aplicar_try env base prov dia vac mes = Inr r \<Longrightarrow>
   aplicar_correccion_avanzada env base prov dia vac mes = r"
  by (simp add: aplicar_correccion_avanzada_def)

lemma aplicar_error:
  "aplicar_try env base prov dia vac mes = Inl e \<Longrightarrow>
   aplicar_correccion_avanzada env base prov dia vac mes =
     \<lparr>prediccion_corregida = base,
      factores_aplicados = PDict [(''error'', PStr (str_exn env e))],
      factor_total = 1\<rparr>"
  by (simp add: aplicar_correccion_avanzada_def)

lemma aplicar_try_ej1:
  "aplicar_try env_ej 20 (PStr ''guayas'') (PInt 6) (PInt 1) (PInt 7) =
     Inr \<lparr>prediccion_corregida = 20 * (1.2 * 1.1 * 1.15 * 1.25),
          factores_aplicados = PDict (desglose (PFloat 1.2) (PFloat 1.1) (PFloat 1.15) (PFloat 1.25)),
          factor_total = 1.2 * 1.1 * 1.15 * 1.25\<rparr>"
  by (simp add: aplicar_try_def correccion_provincia_def correccion_dia_semana_def
      correccion_vacaciones_def correccion_estacional_def factores_iniciales_def
      env_ej_def patrones_ej_def upper_char_def str_int_def
      factores_estacionales_def desglose_def)

lemma aplicar_try_ej2:
  "aplicar_try env_ej 20 (PStr ''azuay'') (PInt 2) (PInt 0) (PInt 13) =
     Inr \<lparr>prediccion_corregida = 20,
          factores_aplicados = PDict (desglose (PFloat 1) (PFloat 1) (PFloat 1) (PFloat 1)),
          factor_total = 1\<rparr>"
  by (simp add: aplicar_try_def correccion_provincia_def correccion_dia_semana_def
      correccion_vacaciones_def correccion_estacional_def factores_iniciales_def
      env_ej_def patrones_ej_def upper_char_def str_int_def
      factores_estacionales_def desglose_def)

text \<open>
  Claim C2. Whenever the correction engine takes its normal path, the value it returns is
  the base prediction times \<open>factor_total\<close>, the breakdown holds exactly the four factors
  (province, weekday, holiday, seasonal), each a number, and \<open>factor_total\<close> is their
  product.
\<close>

theorem correccion_es_producto:
  assumes "aplicar_try env base prov dia vac mes = Inr r"
  shows "aplicar_correccion_avanzada env base prov dia vac mes = r \<and>
         prediccion_corregida r = base * factor_total r \<and>
         (\<exists>fp fd fv fe xp xd xv xe.
            factores_aplicados r =
              PDict [(''provincia'', fp), (''dia_semana'', fd), (''vacaciones'', fv),
                     (''estacional'', fe)] \<and>
            num_of fp = Some xp \<and> num_of fd = Some xd \<and> num_of fv = Some xv \<and>
            num_of fe = Some xe \<and> factor_total r = xp * xd * xv * xe)"
proof -
  from aplicar_try_Inr [OF assms] obtain fp fd xp xd xe where
    n: "num_of fp = Some xp" "num_of fd = Some xd"
    and r: "r = \<lparr>prediccion_corregida = base * (xp * xd * (if truthy vac then 1.15 else 1) * xe),
                 factores_aplicados =
                   PDict (desglose fp fd (PFloat (if truthy vac then 1.15 else 1)) (PFloat xe)),
                 factor_total = xp * xd * (if truthy vac then 1.15 else 1) * xe\<rparr>"
    by blast
  have "factores_aplicados r =
          PDict [(''provincia'', fp), (''dia_semana'', fd),
                 (''vacaciones'', PFloat (if truthy vac then 1.15 else 1)),
                 (''estacional'', PFloat xe)]"
    by (simp add: r desglose_def)
  moreover have "factor_total r = xp * xd * (if truthy vac then 1.15 else 1) * xe"
    by (simp add: r)
  moreover have "prediccion_corregida r = base * factor_total r"
    by (simp add: r)
  moreover have "num_of (PFloat (if truthy vac then 1.15 else 1)) = Some (if truthy vac then 1.15 else 1)"
    "num_of (PFloat xe) = Some xe"
    by simp_all
  ultimately show ?thesis
    using n aplicar_normal [OF assms] by blast
qed

theorem correccion_es_producto_witness:
  "aplicar_try env_ej 20 (PStr ''guayas'') (PInt 6) (PInt 1) (PInt 7) =
     Inr \<lparr>prediccion_corregida = 34.5 * 1.1,
          factores_aplicados =
            PDict [(''provincia'', PFloat 1.2), (''dia_semana'', PFloat 1.1),
                   (''vacaciones'', PFloat 1.15), (''estacional'', PFloat 1.25)],
          factor_total = 1.725 * 1.1\<rparr> \<and>
   aplicar_correccion_avanzada env_ej 20 (PStr ''guayas'') (PInt 6) (PInt 1) (PInt 7) =
     \<lparr>prediccion_corregida = 34.5 * 1.1,
      factores_aplicados =
        PDict [(''provincia'', PFloat 1.2), (''dia_semana'', PFloat 1.1),
               (''vacaciones'', PFloat 1.15), (''estacional'', PFloat 1.25)],
      factor_total = 1.725 * 1.1\<rparr>"
proof -
  have h: "aplicar_try env_ej 20 (PStr ''guayas'') (PInt 6) (PInt 1) (PInt 7) =
     Inr \<lparr>prediccion_corregida = 34.5 * 1.1,
          factores_aplicados =
            PDict [(''provincia'', PFloat 1.2), (''dia_semana'', PFloat 1.1),
                   (''vacaciones'', PFloat 1.15), (''estacional'', PFloat 1.25)],
          factor_total = 1.725 * 1.1\<rparr>"
    by (simp add: aplicar_try_ej1 desglose_def)
  from correccion_es_producto [OF h] h show ?thesis by simp
qed

text \<open>
  Claim C3. The categorizer is a function on all reals with four bands whose thresholds are
  inclusive at the lower bound: at least 35 is MUY ALTA, from 25 up to 35 is ALTA, from 15
  up to 25 is MEDIA, below 15 is BAJA. It is monotonic in the order of the bands, and the
  values 35, 25 and 15 fall in the upper band.
\<close>

theorem categorizar_afluencia_bandas:
  "(35 \<le> x \<longrightarrow> categoria (categorizar_afluencia x) = ''MUY ALTA'') \<and>
   (25 \<le> x \<and> x < 35 \<longrightarrow> categoria (categorizar_afluencia x) = ''ALTA'') \<and>
   (15 \<le> x \<and> x < 25 \<longrightarrow> categoria (categorizar_afluencia x) = ''MEDIA'') \<and>
   (x < 15 \<longrightarrow> categoria (categorizar_afluencia x) = ''BAJA'') \<and>
   categoria (categorizar_afluencia x) \<in> {''MUY ALTA'', ''ALTA'', ''MEDIA'', ''BAJA''} \<and>
   (x \<le> y \<longrightarrow>
      nivel (categoria (categorizar_afluencia x)) \<le> nivel (categoria (categorizar_afluencia y))) \<and>
   categoria (categorizar_afluencia 35) = ''MUY ALTA'' \<and>
   categoria (categorizar_afluencia 25) = ''ALTA'' \<and>
   categoria (categorizar_afluencia 15) = ''MEDIA''"
  by (simp add: categorizar_afluencia_def nivel_def)

theorem categorizar_afluencia_bandas_witness:
  "categoria (categorizar_afluencia 40) = ''MUY ALTA'' \<and>
   categoria (categorizar_afluencia 34.99) = ''ALTA'' \<and>
   categoria (categorizar_afluencia 20) = ''MEDIA'' \<and>
   categoria (categorizar_afluencia 14.99) = ''BAJA'' \<and>
   categoria (categorizar_afluencia (-3)) = ''BAJA'' \<and>
   nivel (categoria (categorizar_afluencia 20)) \<le> nivel (categoria (categorizar_afluencia 34.99))"
  using categorizar_afluencia_bandas [of 40 40] categorizar_afluencia_bandas [of "34.99" "34.99"]
    categorizar_afluencia_bandas [of 20 "34.99"] categorizar_afluencia_bandas [of "14.99" "14.99"]
    categorizar_afluencia_bandas [of "-3" "-3"]
  by (simp add: nivel_def)

lemma get_estacional_int:
  "get_estacional (PInt m) d =
     Inr (if 1 \<le> m \<and> m \<le> 12
          then [1.1, 1.05, 0.95, 0.9, 0.9, 1.2, 1.25, 1.3, 0.9, 0.95, 1.0, 1.15] ! nat (m - 1)
          else d)"
proof (cases "1 \<le> m \<and> m \<le> 12")
  case True
  then have "m = 1 \<or> m = 2 \<or> m = 3 \<or> m = 4 \<or> m = 5 \<or> m = 6 \<or> m = 7 \<or> m = 8 \<or> m = 9 \<or>
             m = 10 \<or> m = 11 \<or> m = 12"
    by presburger
  then show ?thesis
    by (elim disjE) (simp_all add: factores_estacionales_def)
next
  case False
  then show ?thesis
    by (auto simp: factores_estacionales_def)
qed

text \<open>
  Claim C6, as the code has it. On the normal path of the correction engine, the seasonal
  factor of an integer month from 1 to 12 is the entry of the fixed table (1.1, 1.05, 0.95,
  0.9, 0.9, 1.2, 1.25, 1.3, 0.9, 0.95, 1.0, 1.15), and the seasonal factor of any other
  integer month is 1.0.
\<close>

theorem factor_estacional_por_mes:
  assumes "aplicar_try env base prov dia vac (PInt m) = Inr r"
  shows "\<exists>fa. factores_aplicados (aplicar_correccion_avanzada env base prov dia vac (PInt m)) =
                PDict fa \<and>
           (1 \<le> m \<and> m \<le> 12 \<longrightarrow>
              map_of fa ''estacional'' =
                Some (PFloat ([1.1, 1.05, 0.95, 0.9, 0.9, 1.2, 1.25, 1.3, 0.9, 0.95, 1.0, 1.15]
                               ! nat (m - 1)))) \<and>
           (m < 1 \<or> 12 < m \<longrightarrow> map_of fa ''estacional'' = Some (PFloat 1.0))"
proof -
  from aplicar_try_Inr [OF assms] obtain fp fd fv xe where
    e: "get_estacional (PInt m) 1 = Inr xe"
    and r: "factores_aplicados r = PDict (desglose fp fd (PFloat fv) (PFloat xe))"
    by fastforce
  have "map_of (desglose fp fd (PFloat fv) (PFloat xe)) ''estacional'' = Some (PFloat xe)"
    by (simp add: desglose_def)
  with e r show ?thesis
    unfolding aplicar_normal [OF assms] get_estacional_int by auto
qed

theorem factor_estacional_por_mes_witness:
  "aplicar_try env_ej 20 (PStr ''guayas'') (PInt 6) (PInt 1) (PInt 7) =
     Inr \<lparr>prediccion_corregida = 20 * (1.2 * 1.1 * 1.15 * 1.25),
          factores_aplicados =
            PDict (desglose (PFloat 1.2) (PFloat 1.1) (PFloat 1.15) (PFloat 1.25)),
          factor_total = 1.2 * 1.1 * 1.15 * 1.25\<rparr> \<and>
   (\<exists>fa. factores_aplicados
           (aplicar_correccion_avanzada env_ej 20 (PStr ''guayas'') (PInt 6) (PInt 1) (PInt 7)) =
          PDict fa \<and>
         map_of fa ''estacional'' = Some (PFloat 1.25)) \<and>
   (\<exists>fa. factores_aplicados
           (aplicar_correccion_avanzada env_ej 20 (PStr ''azuay'') (PInt 2) (PInt 0) (PInt 13)) =
          PDict fa \<and>
         map_of fa ''estacional'' = Some (PFloat 1))"
  using factor_estacional_por_mes [OF aplicar_try_ej1] factor_estacional_por_mes [OF aplicar_try_ej2]
    aplicar_try_ej1
  by simp

lemma aplicar_try_sin_reglas:
  assumes "py_getitem (patrones env) ''PATRONES_PROVINCIA'' = Inr (PDict tp)"
    and "upper_py env s \<notin> set (map fst tp)"
    and "py_getitem (patrones env) ''PATRONES_DIA_SEMANA'' = Inr (PDict td)"
    and "py_str env dia \<notin> set (map fst td)"
    and "get_estacional mes 1.0 = Inr xe"
  shows "aplicar_try env base (PStr s) dia vac mes =
           Inr \<lparr>prediccion_corregida = base * ((if truthy vac then 1.15 else 1.0) * xe),
                factores_aplicados =
                  PDict [(''provincia'', PFloat 1.0), (''dia_semana'', PFloat 1.0),
                         (''vacaciones'', PFloat (if truthy vac then 1.15 else 1.0)),
                         (''estacional'', PFloat xe)],
                factor_total = (if truthy vac then 1.15 else 1.0) * xe\<rparr>"
  using assms
  by (simp add: aplicar_try_def correccion_provincia_def correccion_dia_semana_def
      correccion_vacaciones_def correccion_estacional_def factores_iniciales_def)

text \<open>
  Claim C7, as the code has it. A factor whose rule does not match stays 1.0 and is no
  error. On the normal path of the engine: a province whose uppercased form is not a key
  of the province table has the province factor 1.0; a weekday whose string form is not a
  key of the weekday table has the weekday factor 1.0; a falsy holiday flag has the
  holiday factor 1.0 and a truthy one the constant 1.15. And when neither the province
  nor the weekday is a key of its table, the engine does take the normal path, for every
  month that can be looked up, with the holiday factor multiplied in.
\<close>

theorem factores_por_defecto:
  "(aplicar_try env base prov dia vac mes = Inr r \<longrightarrow>
      (\<exists>fa. factores_aplicados (aplicar_correccion_avanzada env base prov dia vac mes) = PDict fa \<and>
         (\<forall>s tp. prov = PStr s \<and>
                 py_getitem (patrones env) ''PATRONES_PROVINCIA'' = Inr (PDict tp) \<and>
                 upper_py env s \<notin> set (map fst tp) \<longrightarrow>
                 map_of fa ''provincia'' = Some (PFloat 1.0)) \<and>
         (\<forall>td. py_getitem (patrones env) ''PATRONES_DIA_SEMANA'' = Inr (PDict td) \<and>
               py_str env dia \<notin> set (map fst td) \<longrightarrow>
               map_of fa ''dia_semana'' = Some (PFloat 1.0)) \<and>
         (\<not> truthy vac \<longrightarrow> map_of fa ''vacaciones'' = Some (PFloat 1.0)) \<and>
         (truthy vac \<longrightarrow> map_of fa ''vacaciones'' = Some (PFloat 1.15)))) \<and>
   (py_getitem (patrones env) ''PATRONES_PROVINCIA'' = Inr (PDict tp) \<and>
    upper_py env s \<notin> set (map fst tp) \<and>
    py_getitem (patrones env) ''PATRONES_DIA_SEMANA'' = Inr (PDict td) \<and>
    py_str env dia \<notin> set (map fst td) \<and>
    get_estacional mes 1.0 = Inr xe \<longrightarrow>
      aplicar_try env base (PStr s) dia vac mes =
        Inr \<lparr>prediccion_corregida = base * ((if truthy vac then 1.15 else 1.0) * xe),
             factores_aplicados =
               PDict [(''provincia'', PFloat 1.0), (''dia_semana'', PFloat 1.0),
                      (''vacaciones'', PFloat (if truthy vac then 1.15 else 1.0)),
                      (''estacional'', PFloat xe)],
             factor_total = (if truthy vac then 1.15 else 1.0) * xe\<rparr>)"
proof (intro conjI impI)
  assume a: "aplicar_try env base prov dia vac mes = Inr r"
  from aplicar_try_Inr [OF a] obtain s' tp' td' fp fd xe' where
    p: "prov = PStr s'" "py_getitem (patrones env) ''PATRONES_PROVINCIA'' = Inr tp'"
       "py_in (upper_py env s') tp' = Inr False \<and> fp = PFloat 1 \<or>
        py_in (upper_py env s') tp' = Inr True"
    and d: "py_getitem (patrones env) ''PATRONES_DIA_SEMANA'' = Inr td'"
       "py_in (py_str env dia) td' = Inr False \<and> fd = PFloat 1 \<or>
        py_in (py_str env dia) td' = Inr True"
    and r: "factores_aplicados r =
              PDict (desglose fp fd (PFloat (if truthy vac then 1.15 else 1)) (PFloat xe'))"
    by fastforce
  let ?fa = "desglose fp fd (PFloat (if truthy vac then 1.15 else 1)) (PFloat xe')"
  have 1: "factores_aplicados (aplicar_correccion_avanzada env base prov dia vac mes) = PDict ?fa"
    by (simp add: aplicar_normal [OF a] r)
  have 2: "\<forall>s tp. prov = PStr s \<and>
                 py_getitem (patrones env) ''PATRONES_PROVINCIA'' = Inr (PDict tp) \<and>
                 upper_py env s \<notin> set (map fst tp) \<longrightarrow>
                 map_of ?fa ''provincia'' = Some (PFloat 1.0)"
    using p by (auto simp: desglose_def)
  have 3: "\<forall>td. py_getitem (patrones env) ''PATRONES_DIA_SEMANA'' = Inr (PDict td) \<and>
               py_str env dia \<notin> set (map fst td) \<longrightarrow>
               map_of ?fa ''dia_semana'' = Some (PFloat 1.0)"
    using d by (auto simp: desglose_def)
  have 4: "\<not> truthy vac \<longrightarrow> map_of ?fa ''vacaciones'' = Some (PFloat 1.0)"
    "truthy vac \<longrightarrow> map_of ?fa ''vacaciones'' = Some (PFloat 1.15)"
    by (simp_all add: desglose_def)
  from 1 2 3 4 show "\<exists>fa. factores_aplicados (aplicar_correccion_avanzada env base prov dia vac mes) = PDict fa \<and>
         (\<forall>s tp. prov = PStr s \<and>
                 py_getitem (patrones env) ''PATRONES_PROVINCIA'' = Inr (PDict tp) \<and>
                 upper_py env s \<notin> set (map fst tp) \<longrightarrow>
                 map_of fa ''provincia'' = Some (PFloat 1.0)) \<and>
         (\<forall>td. py_getitem (patrones env) ''PATRONES_DIA_SEMANA'' = Inr (PDict td) \<and>
               py_str env dia \<notin> set (map fst td) \<longrightarrow>
               map_of fa ''dia_semana'' = Some (PFloat 1.0)) \<and>
         (\<not> truthy vac \<longrightarrow> map_of fa ''vacaciones'' = Some (PFloat 1.0)) \<and>
         (truthy vac \<longrightarrow> map_of fa ''vacaciones'' = Some (PFloat 1.15))"
    by blast
next
  assume "py_getitem (patrones env) ''PATRONES_PROVINCIA'' = Inr (PDict tp) \<and>
    upper_py env s \<notin> set (map fst tp) \<and>
    py_getitem (patrones env) ''PATRONES_DIA_SEMANA'' = Inr (PDict td) \<and>
    py_str env dia \<notin> set (map fst td) \<and>
    get_estacional mes 1.0 = Inr xe"
  then show "aplicar_try env base (PStr s) dia vac mes =
        Inr \<lparr>prediccion_corregida = base * ((if truthy vac then 1.15 else 1.0) * xe),
             factores_aplicados =
               PDict [(''provincia'', PFloat 1.0), (''dia_semana'', PFloat 1.0),
                      (''vacaciones'', PFloat (if truthy vac then 1.15 else 1.0)),
                      (''estacional'', PFloat xe)],
             factor_total = (if truthy vac then 1.15 else 1.0) * xe\<rparr>"
    using aplicar_try_sin_reglas by blast
qed

lemma patrones_ej_tablas:
  "py_getitem (patrones env_ej) ''PATRONES_PROVINCIA'' =
     Inr (PDict [(''GUAYAS'', PDict [(''factor_base'', PFloat 1.2)])])"
  "py_getitem (patrones env_ej) ''PATRONES_DIA_SEMANA'' =
     Inr (PDict [(''6'', PDict [(''factor'', PFloat 1.1)])])"
  by (simp_all add: env_ej_def patrones_ej_def)

theorem factores_por_defecto_witness:
  "aplicar_try env_ej 20 (PStr ''azuay'') (PInt 2) (PInt 0) (PInt 13) =
     Inr \<lparr>prediccion_corregida = 20,
          factores_aplicados = PDict (desglose (PFloat 1) (PFloat 1) (PFloat 1) (PFloat 1)),
          factor_total = 1\<rparr> \<and>
   upper_py env_ej ''azuay'' \<notin> set (map fst [(''GUAYAS'', PDict [(''factor_base'', PFloat 1.2)])]) \<and>
   py_str env_ej (PInt 2) \<notin> set (map fst [(''6'', PDict [(''factor'', PFloat 1.1)])]) \<and>
   \<not> truthy (PInt 0) \<and>
   get_estacional (PInt 13) 1.0 = Inr 1 \<and>
   (\<exists>fa. factores_aplicados
           (aplicar_correccion_avanzada env_ej 20 (PStr ''azuay'') (PInt 2) (PInt 0) (PInt 13)) =
          PDict fa \<and>
         map_of fa ''provincia'' = Some (PFloat 1) \<and>
         map_of fa ''dia_semana'' = Some (PFloat 1) \<and>
         map_of fa ''vacaciones'' = Some (PFloat 1))"
proof -
  have a: "upper_py env_ej ''azuay'' \<notin> set (map fst [(''GUAYAS'', PDict [(''factor_base'', PFloat 1.2)])])"
    by (simp add: env_ej_def upper_char_def)
  have b: "py_str env_ej (PInt 2) \<notin> set (map fst [(''6'', PDict [(''factor'', PFloat 1.1)])])"
    by (simp add: str_int_def)
  have c: "get_estacional (PInt 13) 1.0 = Inr 1"
    by (simp add: factores_estacionales_def)
  from factores_por_defecto
    [of env_ej 20 "PStr ''azuay''" "PInt 2" "PInt 0" "PInt 13" _
        "[(''GUAYAS'', PDict [(''factor_base'', PFloat 1.2)])]" "''azuay''"
        "[(''6'', PDict [(''factor'', PFloat 1.1)])]" 1]
    aplicar_try_ej2 patrones_ej_tablas a b c
  show ?thesis by auto
qed

section \<open>Properties of the feature aligner\<close>

lemma map_of_completar_features:
  "map_of (completar_features fs df) f =
     (case map_of df f of Some v \<Rightarrow> Some v
      | None \<Rightarrow> if f \<in> set fs then Some (PInt 0) else None)"
proof (induction fs arbitrary: df)
  case Nil
  then show ?case by (simp split: option.splits)
next
  case (Cons g fs)
  show ?case
  proof (cases "g \<in> set (map fst df)")
    case True
    then have "map_of df g \<noteq> None"
      by (simp add: map_of_eq_None_iff)
    with True Cons.IH [of df] show ?thesis
      by (auto split: option.splits)
  next
    case False
    then have "map_of df g = None"
      by (simp add: map_of_eq_None_iff)
    with False Cons.IH [of "df @ [(g, PInt 0)]"] show ?thesis
      by (auto simp: map_add_def split: option.splits)
  qed
qed

lemma ordenar_columnas_Inr:
  "\<forall>f \<in> set fs. map_of df f \<noteq> None \<Longrightarrow>
   ordenar_columnas df fs = Inr (map (\<lambda>f. the (map_of df f)) fs)"
  by (induction fs) auto

lemma ordenar_completar:
  "ordenar_columnas (completar_features fs df) fs =
     Inr (map (\<lambda>f. case map_of df f of Some v \<Rightarrow> v | None \<Rightarrow> PInt 0) fs)"
proof -
  let ?df = "completar_features fs df"
  have m: "map_of ?df f = Some (case map_of df f of Some v \<Rightarrow> v | None \<Rightarrow> PInt 0)"
    if "f \<in> set fs" for f
    using that by (simp add: map_of_completar_features split: option.splits)
  then have "\<forall>f \<in> set fs. map_of ?df f \<noteq> None"
    by simp
  then have "ordenar_columnas ?df fs = Inr (map (\<lambda>f. the (map_of ?df f)) fs)"
    by (rule ordenar_columnas_Inr)
  also have "map (\<lambda>f. the (map_of ?df f)) fs =
             map (\<lambda>f. case map_of df f of Some v \<Rightarrow> v | None \<Rightarrow> PInt 0) fs"
    by (rule map_cong) (simp_all add: m)
  finally show ?thesis .
qed

lemma alinear_Some:
  "features_info env = Some fs \<Longrightarrow>
   alinear env data =
     Inr (map (\<lambda>f. case map_of (DataFrame data) f of Some v \<Rightarrow> v | None \<Rightarrow> PInt 0) fs)"
  by (simp add: alinear_def features_de_def ordenar_completar)

lemma alinear_None: "features_info env = None \<Longrightarrow> alinear env data = Inl TypeError"
  by (simp add: alinear_def features_de_def)

text \<open>
  Claim C5. For every input record and every loaded feature schema, the aligner returns a
  row, without error, whose length is the length of the schema and whose entries follow
  the order of the schema: the value of the record where the record has the field, 0
  where it has not. A field of the record that the schema does not name changes nothing.
\<close>

theorem alinear_segun_esquema:
  "features_info env = Some features \<longrightarrow>
     (\<exists>fila. alinear env (PDict kvs) = Inr fila \<and>
        length fila = length features \<and>
        fila = map (\<lambda>f. case map_of kvs f of Some v \<Rightarrow> v | None \<Rightarrow> PInt 0) features \<and>
        (\<forall>i < length features.
           (features ! i \<notin> set (map fst kvs) \<longrightarrow> fila ! i = PInt 0) \<and>
           (\<forall>v. map_of kvs (features ! i) = Some v \<longrightarrow> fila ! i = v)) \<and>
        (\<forall>k v. k \<notin> set features \<longrightarrow> alinear env (PDict ((k, v) # kvs)) = Inr fila))"
proof
  assume f: "features_info env = Some features"
  let ?row = "\<lambda>kvs. map (\<lambda>f. case map_of kvs f of Some v \<Rightarrow> v | None \<Rightarrow> PInt 0) features"
  have a: "alinear env (PDict kvs) = Inr (?row kvs)" for kvs
    by (simp add: alinear_Some [OF f] DataFrame_def)
  have b: "\<forall>i < length features.
           (features ! i \<notin> set (map fst kvs) \<longrightarrow> ?row kvs ! i = PInt 0) \<and>
           (\<forall>v. map_of kvs (features ! i) = Some v \<longrightarrow> ?row kvs ! i = v)"
    by (auto simp: map_of_eq_None_iff [symmetric])
  have c: "?row ((k, v) # kvs) = ?row kvs" if "k \<notin> set features" for k v
    using that by (intro map_cong) auto
  show "\<exists>fila. alinear env (PDict kvs) = Inr fila \<and>
        length fila = length features \<and>
        fila = map (\<lambda>f. case map_of kvs f of Some v \<Rightarrow> v | None \<Rightarrow> PInt 0) features \<and>
        (\<forall>i < length features.
           (features ! i \<notin> set (map fst kvs) \<longrightarrow> fila ! i = PInt 0) \<and>
           (\<forall>v. map_of kvs (features ! i) = Some v \<longrightarrow> fila ! i = v)) \<and>
        (\<forall>k v. k \<notin> set features \<longrightarrow> alinear env (PDict ((k, v) # kvs)) = Inr fila)"
    using a b c by (intro exI [of _ "?row kvs"] conjI) (simp_all only: length_map a, blast+)
qed

theorem alinear_segun_esquema_witness:
  "features_info env_ej = Some [''Mes'', ''temperatura''] \<and>
   alinear env_ej (PDict [(''provincia'', PStr ''azuay''), (''Mes'', PInt 11)]) =
     Inr [PInt 11, PInt 0] \<and>
   alinear env_ej (PDict [(''temperatura'', PFloat 21.5)]) = Inr [PInt 0, PFloat 21.5]"
proof -
  have f: "features_info env_ej = Some [''Mes'', ''temperatura'']"
    by (simp add: env_ej_def)
  from alinear_segun_esquema [of env_ej "[''Mes'', ''temperatura'']"
         "[(''provincia'', PStr ''azuay''), (''Mes'', PInt 11)]"]
       alinear_segun_esquema [of env_ej "[''Mes'', ''temperatura'']"
         "[(''temperatura'', PFloat 21.5)]"] f
  show ?thesis by simp
qed

section \<open>Properties of the request handlers\<close>

lemma py_get_Inr: "py_get data k d = Inr v \<longleftrightarrow> (\<exists>kvs. data = PDict kvs \<and> v = parametro kvs k d)"
  by (cases data) (auto simp: parametro_def)

lemma alinear_dict:
  "features_info env = Some fs \<Longrightarrow> alinear env (PDict kvs) = Inr (fila_de fs kvs)"
  by (simp add: alinear_Some DataFrame_def fila_de_def parametro_def)

lemma predict_try_datos:
  assumes "modelo env = Some m" "features_info env = Some fs"
    and "json rq = Inr (PDict kvs)" "kvs \<noteq> []"
    and "m (fila_de fs kvs) = Inr base"
  shows "predict_try env rq =
     (let provincia = parametro kvs ''provincia'' (PStr ''PICHINCHA'');
          dia_semana = parametro kvs ''dia_semana'' (PInt 1);
          es_vacaciones = parametro kvs ''Es_Vacaciones'' (PInt 0);
          mes = parametro kvs ''Mes'' (PInt 1);
          r = aplicar_correccion_avanzada env base provincia dia_semana es_vacaciones mes;
          c = categorizar_afluencia (prediccion_corregida r)
      in bind_exn (py_upper env provincia) (\<lambda>provincia_upper.
           Inr (200, PDict
             [(''prediccion'', PDict
                 [(''afluencia'', PFloat (round_py env (prediccion_corregida r) 2)),
                  (''prediccion_base'', PFloat (round_py env base 2)),
                  (''categoria'', PStr (categoria c)),
                  (''emoji'', PStr (emoji c)),
                  (''recomendacion'', PStr (recomendacion c))]),
              (''detalles'', PDict
                 [(''provincia'', PStr provincia_upper),
                  (''dia_semana'', dia_semana),
                  (''mes'', mes),
                  (''es_vacaciones'', PBool (truthy es_vacaciones)),
                  (''factores_aplicados'', factores_aplicados r),
                  (''factor_total'', PFloat (round_py env (factor_total r) 3))]),
              (''metadata'', PDict
                 [(''timestamp'', PStr (now rq)),
                  (''modelo'', PStr ''RandomForest - Turismo Ecuador v1.0''),
                  (''status'', PStr ''success'')])])))"
  using assms
  by (simp add: predict_try_def alinear_Some [OF assms(2)] DataFrame_def modelo_predict_def Let_def
      parametro_def fila_de_def)

lemma env_ej_campos:
  "modelo env_ej = Some (\<lambda>fila. Inr base_ej)"
  "features_info env_ej = Some [''Mes'', ''temperatura'']"
  "patrones env_ej = patrones_ej"
  "str_exn env_ej = (\<lambda>e. ''error'')"
  "upper_py env_ej = map upper_char"
  "round_py env_ej = py_round"
  by (simp_all add: env_ej_def)

lemma aplicar_try_ej3:
  "aplicar_try env_ej base_ej (PStr ''azuay'') (PInt 2) (PInt 0) (PInt 11) =
     Inr \<lparr>prediccion_corregida = base_ej,
          factores_aplicados = PDict (desglose (PFloat 1) (PFloat 1) (PFloat 1) (PFloat 1)),
          factor_total = 1\<rparr>"
  by (simp add: aplicar_try_def correccion_provincia_def correccion_dia_semana_def
      correccion_vacaciones_def correccion_estacional_def factores_iniciales_def
      env_ej_def patrones_ej_def upper_char_def str_int_def
      factores_estacionales_def desglose_def)

lemma redondeos_ej: "round_py env_ej base_ej 2 = 35" "round_py env_ej 1 3 = 1"
  by (simp_all add: env_ej_campos py_round_def round_half_even_def Let_def base_ej_def)

lemma categoria_base_ej:
  "categorizar_afluencia base_ej =
     \<lparr>categoria = ''ALTA'', emoji = fuego @ fuego,
      recomendacion = ''Muy buen d'' @ [CHR 0xC3, CHR 0xAD] @ ''a para actividades tur''
                        @ [CHR 0xC3, CHR 0xAD] @ ''sticas''\<rparr>"
  by (simp add: categorizar_afluencia_def base_ej_def)

lemma predict_ej:
  "predict env_ej rq_azuay =
     (200, PDict
        [(''prediccion'', PDict
            [(''afluencia'', PFloat 35),
             (''prediccion_base'', PFloat 35),
             (''categoria'', PStr ''ALTA''),
             (''emoji'', PStr (fuego @ fuego)),
             (''recomendacion'', PStr (''Muy buen d'' @ [CHR 0xC3, CHR 0xAD] @ ''a para actividades tur''
                           @ [CHR 0xC3, CHR 0xAD] @ ''sticas''))]),
         (''detalles'', PDict
            [(''provincia'', PStr ''AZUAY''),
             (''dia_semana'', PInt 2),
             (''mes'', PInt 11),
             (''es_vacaciones'', PBool False),
             (''factores_aplicados'', PDict (desglose (PFloat 1) (PFloat 1) (PFloat 1) (PFloat 1))),
             (''factor_total'', PFloat 1)]),
         (''metadata'', PDict
            [(''timestamp'', PStr ''2024-11-03T10:00:00''),
             (''modelo'', PStr ''RandomForest - Turismo Ecuador v1.0''),
             (''status'', PStr ''success'')])])"
proof -
  have j: "json rq_azuay = Inr (PDict [(''provincia'', PStr ''azuay''), (''dia_semana'', PInt 2),
                         (''Mes'', PInt 11)])"
    and n: "now rq_azuay = ''2024-11-03T10:00:00''"
    by (simp_all add: rq_azuay_def)
  have "predict_try env_ej rq_azuay = Inr (200, PDict
        [(''prediccion'', PDict
            [(''afluencia'', PFloat 35),
             (''prediccion_base'', PFloat 35),
             (''categoria'', PStr ''ALTA''),
             (''emoji'', PStr (fuego @ fuego)),
             (''recomendacion'', PStr (''Muy buen d'' @ [CHR 0xC3, CHR 0xAD] @ ''a para actividades tur''
                           @ [CHR 0xC3, CHR 0xAD] @ ''sticas''))]),
         (''detalles'', PDict
            [(''provincia'', PStr ''AZUAY''),
             (''dia_semana'', PInt 2),
             (''mes'', PInt 11),
             (''es_vacaciones'', PBool False),
             (''factores_aplicados'', PDict (desglose (PFloat 1) (PFloat 1) (PFloat 1) (PFloat 1))),
             (''factor_total'', PFloat 1)]),
         (''metadata'', PDict
            [(''timestamp'', PStr ''2024-11-03T10:00:00''),
             (''modelo'', PStr ''RandomForest - Turismo Ecuador v1.0''),
             (''status'', PStr ''success'')])])"
    by (subst predict_try_datos [OF env_ej_campos(1,2) j, of base_ej])
      (simp_all add: Let_def n aplicar_normal [OF aplicar_try_ej3] redondeos_ej
        categoria_base_ej env_ej_campos(5) upper_char_def parametro_def)
  then show ?thesis
    by (simp add: predict_def)
qed

lemma predict_simple_ej:
  "predict_simple env_ej rq_azuay =
     (200, PDict [(''afluencia'', PFloat 35), (''categoria'', PStr ''MUY ALTA''),
                  (''success'', PBool True)])"
proof -
  have j: "json rq_azuay = Inr (PDict [(''provincia'', PStr ''azuay''), (''dia_semana'', PInt 2),
                         (''Mes'', PInt 11)])"
    by (simp add: rq_azuay_def)
  have c: "categoria (categorizar_afluencia 35) = ''MUY ALTA''"
    by (simp add: categorizar_afluencia_def)
  have "predict_simple_try env_ej rq_azuay =
     Inr (200, PDict [(''afluencia'', PFloat 35), (''categoria'', PStr ''MUY ALTA''),
                  (''success'', PBool True)])"
    by (simp add: predict_simple_try_def j alinear_dict [OF env_ej_campos(2)] modelo_predict_def
        env_ej_campos(1) parametro_def aplicar_normal [OF aplicar_try_ej3] redondeos_ej c)
  then show ?thesis
    by (simp add: predict_simple_def)
qed

text \<open>
  Claim C1. The claim reads: the categorizer applied to the \<open>afluencia\<close> of a 200 response of
  \<^verbatim>\<open>POST /predict\<close> gives the \<open>categoria\<close> of that response. \<^verbatim>\<open>predict\<close> categorizes the
  value before rounding it. With a base prediction of 34.996 and no matching rule the
  response carries \<open>afluencia\<close> 35 and \<open>categoria\<close> ALTA, while the categorizer gives MUY ALTA
  on 35, which is also what \<^verbatim>\<open>POST /predict/simple\<close> answers on the same request.
\<close>

theorem predict_categoria_del_valor_sin_redondear:
  "fst (predict env_ej rq_azuay) = 200 \<and>
   campo2 ''prediccion'' ''afluencia'' (snd (predict env_ej rq_azuay)) = Some (PFloat 35) \<and>
   campo2 ''prediccion'' ''categoria'' (snd (predict env_ej rq_azuay)) = Some (PStr ''ALTA'') \<and>
   categoria (categorizar_afluencia 35) = ''MUY ALTA'' \<and>
   campo ''afluencia'' (snd (predict_simple env_ej rq_azuay)) = Some (PFloat 35) \<and>
   campo ''categoria'' (snd (predict_simple env_ej rq_azuay)) = Some (PStr ''MUY ALTA'')"
  by (simp add: predict_ej predict_simple_ej campo2_def categorizar_afluencia_def)

text \<open>
  Claim C8, as the code has it. When the model and the feature schema are loaded, a
  \<^verbatim>\<open>POST /predict\<close> request whose \<^verbatim>\<open>request.json\<close> raises or is falsy (no body, an empty
  body, an empty object) is answered with status 400 and a body with an \<open>error\<close> field.
\<close>

theorem predict_cuerpo_vacio:
  assumes "modelo env \<noteq> None" and "features_info env \<noteq> None"
    and "case json rq of Inl e \<Rightarrow> True | Inr data \<Rightarrow> \<not> truthy data"
  shows "fst (predict env rq) = 400 \<and>
         (\<exists>msg. campo ''error'' (snd (predict env rq)) = Some (PStr msg))"
proof (cases "json rq")
  case (Inl e)
  with assms(1,2) have "predict_try env rq = Inl e"
    by (simp add: predict_try_def)
  then show ?thesis
    by (simp add: predict_def)
next
  case (Inr data)
  with assms have "predict_try env rq = Inr (400, PDict [(''error'', PStr ''No se enviaron datos'')])"
    by (simp add: predict_try_def)
  then show ?thesis
    by (simp add: predict_def)
qed

theorem predict_cuerpo_vacio_witness:
  "modelo env_ej \<noteq> None \<and> features_info env_ej \<noteq> None \<and>
   json rq_sin_cuerpo = Inr PNone \<and> \<not> truthy PNone \<and>
   fst (predict env_ej rq_sin_cuerpo) = 400 \<and>
   (\<exists>msg. campo ''error'' (snd (predict env_ej rq_sin_cuerpo)) = Some (PStr msg))"
proof -
  have a: "modelo env_ej \<noteq> None" "features_info env_ej \<noteq> None"
    by (simp_all add: env_ej_def)
  have b: "json rq_sin_cuerpo = Inr PNone"
    by (simp add: rq_sin_cuerpo_def)
  then have c: "case json rq_sin_cuerpo of Inl e \<Rightarrow> True | Inr data \<Rightarrow> \<not> truthy data"
    by simp
  from predict_cuerpo_vacio [OF a c] a b show ?thesis
    by simp
qed

text \<open>
  Claim C8 as stated fails when the model is not loaded: the check of the resources comes
  first, and a request without body is answered with status 500.
\<close>

theorem predict_cuerpo_vacio_sin_modelo:
  "json rq_sin_cuerpo = Inr PNone \<and> \<not> truthy PNone \<and> modelo env_sin_modelo = None \<and>
   predict env_sin_modelo rq_sin_cuerpo =
     (500, PDict [(''error'', PStr ''Modelo no cargado correctamente'')])"
  by (simp add: predict_def predict_try_def env_sin_modelo_def rq_sin_cuerpo_def)

lemma predict_sin_recursos:
  "modelo env = None \<or> features_info env = None \<Longrightarrow>
   predict env rq = (500, PDict [(''error'', PStr ''Modelo no cargado correctamente'')])"
  by (simp add: predict_def predict_try_def)

lemma predict_simple_try_sin_recursos:
  assumes "modelo env = None \<or> features_info env = None"
    and "json rq = Inr data" and "truthy data"
  shows "\<exists>e. predict_simple_try env rq = Inl e"
proof (cases "features_info env")
  case None
  with assms(2,3) show ?thesis
    by (simp add: predict_simple_try_def alinear_None)
next
  case (Some fs)
  with assms(1) have "modelo env = None"
    by simp
  with assms(2,3) Some show ?thesis
    by (simp add: predict_simple_try_def alinear_Some modelo_predict_def)
qed

text \<open>
  Claim C10, as the code has it. While the model or the feature schema is not loaded,
  \<^verbatim>\<open>POST /predict/simple\<close> answers every request with status 400 and a body with an
  \<open>error\<close> field, where \<^verbatim>\<open>POST /predict\<close> answers 500. When \<^verbatim>\<open>request.json\<close> raises or is
  truthy, the \<^verbatim>\<open>try\<close> block fails and the answer is the body \<open>{error, success: false}\<close> of
  the \<^verbatim>\<open>except\<close> clause.
\<close>

theorem predict_simple_sin_recursos:
  assumes "modelo env = None \<or> features_info env = None"
  shows "fst (predict_simple env rq) = 400 \<and>
         (\<exists>msg. campo ''error'' (snd (predict_simple env rq)) = Some (PStr msg)) \<and>
         fst (predict env rq) = 500 \<and>
         ((case json rq of Inl e \<Rightarrow> True | Inr data \<Rightarrow> truthy data) \<longrightarrow>
            (\<exists>e. predict_simple_try env rq = Inl e \<and>
                 snd (predict_simple env rq) =
                   PDict [(''error'', PStr (str_exn env e)), (''success'', PBool False)]))"
proof -
  have p: "fst (predict env rq) = 500"
    by (simp add: predict_sin_recursos [OF assms])
  show ?thesis
  proof (cases "json rq")
    case (Inl e)
    then have "predict_simple_try env rq = Inl e"
      by (simp add: predict_simple_try_def)
    with p show ?thesis
      by (simp add: predict_simple_def)
  next
    case (Inr data)
    show ?thesis
    proof (cases "truthy data")
      case True
      from predict_simple_try_sin_recursos [OF assms Inr True] obtain e where
        "predict_simple_try env rq = Inl e" ..
      with p show ?thesis
        by (simp add: predict_simple_def)
    next
      case False
      with Inr have "predict_simple_try env rq =
                       Inr (400, PDict [(''error'', PStr ''No data provided'')])"
        by (simp add: predict_simple_try_def)
      with p Inr False show ?thesis
        by (simp add: predict_simple_def)
    qed
  qed
qed

theorem predict_simple_sin_recursos_witness:
  "modelo env_sin_modelo = None \<and>
   fst (predict_simple env_sin_modelo rq_azuay) = 400 \<and>
   fst (predict env_sin_modelo rq_azuay) = 500 \<and>
   (\<exists>e. predict_simple_try env_sin_modelo rq_azuay = Inl e \<and>
        snd (predict_simple env_sin_modelo rq_azuay) =
          PDict [(''error'', PStr (str_exn env_sin_modelo e)), (''success'', PBool False)])"
proof -
  have a: "modelo env_sin_modelo = None"
    by (simp add: env_sin_modelo_def)
  then have b: "modelo env_sin_modelo = None \<or> features_info env_sin_modelo = None"
    by simp
  have c: "case json rq_azuay of Inl e \<Rightarrow> True | Inr data \<Rightarrow> truthy data"
    by (simp add: rq_azuay_def)
  from predict_simple_sin_recursos [OF b, of rq_azuay] a c show ?thesis
    by simp
qed

text \<open>
  Claim C10 as stated fails on the empty object: the guard on the body answers before any
  resource is read, with a body that has no \<open>success\<close> field.
\<close>

theorem predict_simple_sin_recursos_cuerpo_vacio:
  "modelo env_sin_modelo = None \<and> json rq_objeto_vacio = Inr (PDict []) \<and>
   predict_simple env_sin_modelo rq_objeto_vacio =
     (400, PDict [(''error'', PStr ''No data provided'')]) \<and>
   campo ''success'' (snd (predict_simple env_sin_modelo rq_objeto_vacio)) = None"
  by (simp add: predict_simple_def predict_simple_try_def env_sin_modelo_def rq_objeto_vacio_def)

lemma predict_simple_try_datos:
  assumes "modelo env = Some m" "features_info env = Some fs"
    and "json rq = Inr (PDict kvs)" "kvs \<noteq> []"
    and "m (fila_de fs kvs) = Inr base"
  shows "predict_simple_try env rq =
     (let afluencia = round_py env (prediccion_corregida
            (aplicar_correccion_avanzada env base (parametro kvs ''provincia'' (PStr ''PICHINCHA''))
               (parametro kvs ''dia_semana'' (PInt 1)) (PInt 0) (parametro kvs ''Mes'' (PInt 1)))) 2
      in Inr (200, PDict
           [(''afluencia'', PFloat afluencia),
            (''categoria'', PStr (categoria (categorizar_afluencia afluencia))),
            (''success'', PBool True)]))"
  using assms
  by (simp add: predict_simple_try_def alinear_dict [OF assms(2)] modelo_predict_def Let_def
      parametro_def)

lemma aplicar_try_no_texto:
  "\<not> es_texto prov \<Longrightarrow> aplicar_try env base prov dia vac mes = Inl AttributeError"
  by (cases prov) (simp_all add: aplicar_try_def correccion_provincia_def)

lemma py_upper_no_texto: "\<not> es_texto v \<Longrightarrow> py_upper env v = Inl AttributeError"
  by (cases v) simp_all

lemma predict_con_correccion_fallida:
  assumes "modelo env = Some m" and "features_info env = Some fs"
    and "json rq = Inr (PDict kvs)" and "kvs \<noteq> []"
    and "m (fila_de fs kvs) = Inr base"
    and "parametro kvs ''provincia'' (PStr ''PICHINCHA'') = PStr s"
    and "aplicar_try env base (PStr s) (parametro kvs ''dia_semana'' (PInt 1))
           (parametro kvs ''Es_Vacaciones'' (PInt 0)) (parametro kvs ''Mes'' (PInt 1)) = Inl e"
  shows "fst (predict env rq) = 200"
    and "campo2 ''detalles'' ''factores_aplicados'' (snd (predict env rq)) =
           Some (PDict [(''error'', PStr (str_exn env e))])"
    and "campo2 ''detalles'' ''factor_total'' (snd (predict env rq)) =
           Some (PFloat (round_py env 1.0 3))"
    and "campo2 ''prediccion'' ''afluencia'' (snd (predict env rq)) =
           Some (PFloat (round_py env base 2))"
  using assms(6)
  by (simp_all add: predict_def predict_try_datos [OF assms(1-5)] Let_def
      aplicar_error [OF assms(7)] campo2_def)

lemma predict_provincia_no_texto:
  assumes "modelo env = Some m" and "features_info env = Some fs"
    and "json rq = Inr (PDict kvs)" and "kvs \<noteq> []"
    and "m (fila_de fs kvs) = Inr base"
    and "\<not> es_texto (parametro kvs ''provincia'' (PStr ''PICHINCHA''))"
  shows "predict env rq =
           (400, PDict
              [(''error'', PStr (''Error en predicci'' @ [CHR 0xC3, CHR 0xB3] @ ''n: ''
                                   @ str_exn env AttributeError)),
               (''status'', PStr ''error''),
               (''timestamp'', PStr (now rq))])"
  by (simp add: predict_def predict_try_datos [OF assms(1-5)] Let_def
      py_upper_no_texto [OF assms(6)])

lemma predict_simple_con_correccion_fallida:
  assumes "modelo env = Some m" and "features_info env = Some fs"
    and "json rq = Inr (PDict kvs)" and "kvs \<noteq> []"
    and "m (fila_de fs kvs) = Inr base"
    and "aplicar_try env base (parametro kvs ''provincia'' (PStr ''PICHINCHA''))
           (parametro kvs ''dia_semana'' (PInt 1)) (PInt 0) (parametro kvs ''Mes'' (PInt 1)) = Inl e"
  shows "predict_simple env rq =
           (200, PDict
              [(''afluencia'', PFloat (round_py env base 2)),
               (''categoria'', PStr (categoria (categorizar_afluencia (round_py env base 2)))),
               (''success'', PBool True)])"
  by (simp add: predict_simple_def predict_simple_try_datos [OF assms(1-5)] Let_def
      aplicar_error [OF assms(6)])

text \<open>
  Claim C4, as the code has it. The correction engine returns in every case: when its
  \<^verbatim>\<open>try\<close> block fails with an exception \<open>e\<close>, it returns the base prediction unchanged, the
  breakdown \<open>{error: str(e)}\<close> and \<open>factor_total\<close> 1.0. What a handler makes of such a
  failure, for a loaded service, a body that is a non-empty object and a model that
  answers:
  \<^item> \<^verbatim>\<open>POST /predict\<close>, the province being a string: a 200 response whose \<open>detalles\<close> carry
    that breakdown and the rounded \<open>factor_total\<close> 1.0, and whose \<open>afluencia\<close> is the rounded
    base prediction;
  \<^item> \<^verbatim>\<open>POST /predict\<close>, the province not being a string: the engine fails on
    \<^verbatim>\<open>provincia.upper()\<close> and recovers, the handler then fails on the same call, and the
    response is 400 with the body of the \<^verbatim>\<open>except\<close> clause;
  \<^item> \<^verbatim>\<open>POST /predict/simple\<close>: a 200 response with the rounded base prediction, its
    category and \<open>success: true\<close>, which says nothing of the failure.
\<close>

theorem correccion_degrada_sin_fallar:
  "(aplicar_try env base prov dia vac mes = Inl e \<longrightarrow>
      aplicar_correccion_avanzada env base prov dia vac mes =
        \<lparr>prediccion_corregida = base,
         factores_aplicados = PDict [(''error'', PStr (str_exn env e))],
         factor_total = 1.0\<rparr>) \<and>
   (aplicar_try env base prov dia vac mes = Inr r \<longrightarrow>
      aplicar_correccion_avanzada env base prov dia vac mes = r) \<and>
   (modelo env = Some m \<and> features_info env = Some fs \<and>
    json rq = Inr (PDict kvs) \<and> kvs \<noteq> [] \<and> m (fila_de fs kvs) = Inr b \<longrightarrow>
      (\<forall>s e'. parametro kvs ''provincia'' (PStr ''PICHINCHA'') = PStr s \<and>
         aplicar_try env b (PStr s) (parametro kvs ''dia_semana'' (PInt 1))
           (parametro kvs ''Es_Vacaciones'' (PInt 0)) (parametro kvs ''Mes'' (PInt 1)) = Inl e' \<longrightarrow>
         fst (predict env rq) = 200 \<and>
         campo2 ''detalles'' ''factores_aplicados'' (snd (predict env rq)) =
           Some (PDict [(''error'', PStr (str_exn env e'))]) \<and>
         campo2 ''detalles'' ''factor_total'' (snd (predict env rq)) =
           Some (PFloat (round_py env 1.0 3)) \<and>
         campo2 ''prediccion'' ''afluencia'' (snd (predict env rq)) =
           Some (PFloat (round_py env b 2))) \<and>
      (\<not> es_texto (parametro kvs ''provincia'' (PStr ''PICHINCHA'')) \<longrightarrow>
         aplicar_try env b (parametro kvs ''provincia'' (PStr ''PICHINCHA''))
           (parametro kvs ''dia_semana'' (PInt 1))
           (parametro kvs ''Es_Vacaciones'' (PInt 0)) (parametro kvs ''Mes'' (PInt 1)) =
           Inl AttributeError \<and>
         predict env rq =
           (400, PDict
              [(''error'', PStr (''Error en predicci'' @ [CHR 0xC3, CHR 0xB3] @ ''n: ''
                                   @ str_exn env AttributeError)),
               (''status'', PStr ''error''),
               (''timestamp'', PStr (now rq))])) \<and>
      (\<forall>e'. aplicar_try env b (parametro kvs ''provincia'' (PStr ''PICHINCHA''))
              (parametro kvs ''dia_semana'' (PInt 1)) (PInt 0)
              (parametro kvs ''Mes'' (PInt 1)) = Inl e' \<longrightarrow>
         predict_simple env rq =
           (200, PDict
              [(''afluencia'', PFloat (round_py env b 2)),
               (''categoria'', PStr (categoria (categorizar_afluencia (round_py env b 2)))),
               (''success'', PBool True)])))"
  using aplicar_error [of env base prov dia vac mes e]
    aplicar_normal [of env base prov dia vac mes r]
    predict_con_correccion_fallida [of env m fs rq kvs b]
    predict_provincia_no_texto [of env m fs rq kvs b]
    predict_simple_con_correccion_fallida [of env m fs rq kvs b]
    aplicar_try_no_texto [of "parametro kvs ''provincia'' (PStr ''PICHINCHA'')" env b]
  by (intro conjI impI allI) (simp, simp, (elim conjE, blast)+)

lemma env_tabla_rota_campos:
  "modelo env_tabla_rota = Some (\<lambda>fila. Inr base_ej)"
  "features_info env_tabla_rota = Some [''Mes'', ''temperatura'']"
  "str_exn env_tabla_rota = (\<lambda>e. ''error'')"
  "upper_py env_tabla_rota = map upper_char"
  "round_py env_tabla_rota = py_round"
  by (simp_all add: env_tabla_rota_def env_ej_def)

lemma aplicar_try_tabla_rota:
  "aplicar_try env_tabla_rota base_ej (PStr ''azuay'') (PInt 2) vac (PInt 11) =
     Inl AttributeError"
  by (simp add: aplicar_try_def correccion_provincia_def env_tabla_rota_def env_ej_def
      upper_char_def factores_iniciales_def)

lemma rq_azuay_campos:
  "json rq_azuay =
     Inr (PDict [(''provincia'', PStr ''azuay''), (''dia_semana'', PInt 2), (''Mes'', PInt 11)])"
  "now rq_azuay = ''2024-11-03T10:00:00''"
  "parametro [(''provincia'', PStr ''azuay''), (''dia_semana'', PInt 2), (''Mes'', PInt 11)]
     ''provincia'' (PStr ''PICHINCHA'') = PStr ''azuay''"
  "parametro [(''provincia'', PStr ''azuay''), (''dia_semana'', PInt 2), (''Mes'', PInt 11)]
     ''dia_semana'' (PInt 1) = PInt 2"
  "parametro [(''provincia'', PStr ''azuay''), (''dia_semana'', PInt 2), (''Mes'', PInt 11)]
     ''Es_Vacaciones'' (PInt 0) = PInt 0"
  "parametro [(''provincia'', PStr ''azuay''), (''dia_semana'', PInt 2), (''Mes'', PInt 11)]
     ''Mes'' (PInt 1) = PInt 11"
  by (simp_all add: rq_azuay_def parametro_def)

lemma rq_provincia_5_campos:
  "json rq_provincia_5 = Inr (PDict [(''provincia'', PInt 5)])"
  "now rq_provincia_5 = ''2024-11-03T10:00:00''"
  "parametro [(''provincia'', PInt 5)] ''provincia'' (PStr ''PICHINCHA'') = PInt 5"
  "parametro [(''provincia'', PInt 5)] ''dia_semana'' (PInt 1) = PInt 1"
  "parametro [(''provincia'', PInt 5)] ''Es_Vacaciones'' (PInt 0) = PInt 0"
  "parametro [(''provincia'', PInt 5)] ''Mes'' (PInt 1) = PInt 1"
  by (simp_all add: rq_provincia_5_def parametro_def)

lemma redondeo_tabla_rota: "round_py env_tabla_rota base_ej 2 = 35"
  by (simp add: env_tabla_rota_campos py_round_def round_half_even_def Let_def base_ej_def)

lemma categoria_35: "categoria (categorizar_afluencia 35) = ''MUY ALTA''"
  by (simp add: categorizar_afluencia_def)

theorem correccion_degrada_sin_fallar_witness:
  "aplicar_try env_tabla_rota base_ej (PStr ''azuay'') (PInt 2) (PInt 0) (PInt 11) =
     Inl AttributeError \<and>
   aplicar_correccion_avanzada env_tabla_rota base_ej (PStr ''azuay'') (PInt 2) (PInt 0) (PInt 11) =
     \<lparr>prediccion_corregida = base_ej,
      factores_aplicados = PDict [(''error'', PStr ''error'')],
      factor_total = 1\<rparr> \<and>
   fst (predict env_tabla_rota rq_azuay) = 200 \<and>
   campo2 ''detalles'' ''factores_aplicados'' (snd (predict env_tabla_rota rq_azuay)) =
     Some (PDict [(''error'', PStr ''error'')]) \<and>
   campo2 ''prediccion'' ''afluencia'' (snd (predict env_tabla_rota rq_azuay)) = Some (PFloat 35) \<and>
   predict_simple env_tabla_rota rq_azuay =
     (200, PDict [(''afluencia'', PFloat 35), (''categoria'', PStr ''MUY ALTA''),
                  (''success'', PBool True)]) \<and>
   \<not> es_texto (PInt 5) \<and>
   fst (predict env_ej rq_provincia_5) = 400"
proof -
  let ?kvs = "[(''provincia'', PStr ''azuay''), (''dia_semana'', PInt 2), (''Mes'', PInt 11)]"
  have n: "\<not> es_texto (PInt 5)"
    by simp
  from correccion_degrada_sin_fallar
    [of env_tabla_rota base_ej "PStr ''azuay''" "PInt 2" "PInt 0" "PInt 11" AttributeError _
        "\<lambda>fila. Inr base_ej" "[''Mes'', ''temperatura'']" rq_azuay ?kvs base_ej]
    aplicar_try_tabla_rota [of "PInt 0"] env_tabla_rota_campos rq_azuay_campos
    redondeo_tabla_rota categoria_35
  have 1: "aplicar_correccion_avanzada env_tabla_rota base_ej (PStr ''azuay'') (PInt 2) (PInt 0)
             (PInt 11) =
     \<lparr>prediccion_corregida = base_ej,
      factores_aplicados = PDict [(''error'', PStr ''error'')],
      factor_total = 1\<rparr> \<and>
   fst (predict env_tabla_rota rq_azuay) = 200 \<and>
   campo2 ''detalles'' ''factores_aplicados'' (snd (predict env_tabla_rota rq_azuay)) =
     Some (PDict [(''error'', PStr ''error'')]) \<and>
   campo2 ''prediccion'' ''afluencia'' (snd (predict env_tabla_rota rq_azuay)) = Some (PFloat 35) \<and>
   predict_simple env_tabla_rota rq_azuay =
     (200, PDict [(''afluencia'', PFloat 35), (''categoria'', PStr ''MUY ALTA''),
                  (''success'', PBool True)])"
    by simp
  from correccion_degrada_sin_fallar
    [of env_ej base_ej "PInt 5" "PInt 1" "PInt 0" "PInt 1" AttributeError _
        "\<lambda>fila. Inr base_ej" "[''Mes'', ''temperatura'']" rq_provincia_5
        "[(''provincia'', PInt 5)]" base_ej]
    env_ej_campos(1,2) rq_provincia_5_campos n
  have 2: "fst (predict env_ej rq_provincia_5) = 400"
    by simp
  from 1 2 n aplicar_try_tabla_rota [of "PInt 0"] show ?thesis
    by simp
qed

text \<open>
  Claim C4 as stated fails in two ways. With the number 5 as province, the failure of the
  engine ends in a 400 response of \<^verbatim>\<open>POST /predict\<close>. With a province table whose entry is
  not a dict, \<^verbatim>\<open>POST /predict/simple\<close> answers 200 with a body that has no \<open>error\<close> field.
\<close>

theorem correccion_fallida_provincia_no_texto:
  "aplicar_try env_ej base_ej (PInt 5) (PInt 1) (PInt 0) (PInt 1) = Inl AttributeError \<and>
   predict env_ej rq_provincia_5 =
     (400, PDict [(''error'', PStr (''Error en predicci'' @ [CHR 0xC3, CHR 0xB3] @ ''n: error'')),
                  (''status'', PStr ''error''),
                  (''timestamp'', PStr ''2024-11-03T10:00:00'')]) \<and>
   aplicar_try env_tabla_rota base_ej (PStr ''azuay'') (PInt 2) (PInt 0) (PInt 11) =
     Inl AttributeError \<and>
   predict_simple env_tabla_rota rq_azuay =
     (200, PDict [(''afluencia'', PFloat 35), (''categoria'', PStr ''MUY ALTA''),
                  (''success'', PBool True)]) \<and>
   campo ''error'' (snd (predict_simple env_tabla_rota rq_azuay)) = None"
proof -
  have a: "aplicar_try env_ej base_ej (PInt 5) (PInt 1) (PInt 0) (PInt 1) = Inl AttributeError"
    by (simp add: aplicar_try_no_texto)
  have n: "\<not> es_texto (parametro [(''provincia'', PInt 5)] ''provincia'' (PStr ''PICHINCHA''))"
    by (simp add: rq_provincia_5_campos)
  have b: "predict env_ej rq_provincia_5 =
     (400, PDict [(''error'', PStr (''Error en predicci'' @ [CHR 0xC3, CHR 0xB3] @ ''n: error'')),
                  (''status'', PStr ''error''),
                  (''timestamp'', PStr ''2024-11-03T10:00:00'')])"
    using predict_provincia_no_texto [OF env_ej_campos(1,2) rq_provincia_5_campos(1) _ _ n, of base_ej]
    by (simp add: env_ej_campos(4) rq_provincia_5_campos(2))
  have c: "predict_simple env_tabla_rota rq_azuay =
     (200, PDict [(''afluencia'', PFloat 35), (''categoria'', PStr ''MUY ALTA''),
                  (''success'', PBool True)])"
    using predict_simple_con_correccion_fallida
      [OF env_tabla_rota_campos(1,2) rq_azuay_campos(1), of base_ej AttributeError]
    by (simp add: rq_azuay_campos aplicar_try_tabla_rota redondeo_tabla_rota categoria_35)
  from a b c aplicar_try_tabla_rota [of "PInt 0"] show ?thesis
    by simp
qed

lemma aplicar_vacaciones_falsy:
  "\<not> truthy vac \<Longrightarrow>
   aplicar_correccion_avanzada env base prov dia vac mes =
   aplicar_correccion_avanzada env base prov dia (PInt 0) mes"
  by (simp add: aplicar_correccion_avanzada_def aplicar_try_def correccion_vacaciones_def)

lemma predict_simple_200:
  assumes "fst (predict_simple env rq) = 200"
  shows "\<exists>m fs kvs base. modelo env = Some m \<and> features_info env = Some fs \<and>
           json rq = Inr (PDict kvs) \<and> kvs \<noteq> [] \<and> m (fila_de fs kvs) = Inr base"
proof -
  from assms obtain body where t: "predict_simple_try env rq = Inr (200, body)"
    by (cases "predict_simple_try env rq") (auto simp: predict_simple_def)
  then obtain data where d: "json rq = Inr data"
    by (auto simp: predict_simple_try_def bind_exn_eq_Inr)
  with t have tr: "truthy data"
    by (auto simp: predict_simple_try_def split: if_splits)
  with t d obtain fila base where
    a: "alinear env data = Inr fila" and b: "modelo_predict env fila = Inr base"
    and g: "\<exists>v. py_get data ''provincia'' (PStr ''PICHINCHA'') = Inr v"
    by (auto simp: predict_simple_try_def bind_exn_eq_Inr)
  from g obtain kvs where k: "data = PDict kvs"
    by (auto simp: py_get_Inr)
  from a obtain fs where f: "features_info env = Some fs"
    by (cases "features_info env") (auto simp: alinear_None)
  from b obtain m where m: "modelo env = Some m"
    by (cases "modelo env") (auto simp: modelo_predict_def)
  from a f k have "fila = fila_de fs kvs"
    by (simp add: alinear_dict)
  with b m have "m (fila_de fs kvs) = Inr base"
    by (simp add: modelo_predict_def)
  with m f d k tr show ?thesis
    by auto
qed

lemma predict_simple_sin_Es_Vacaciones:
  assumes "\<forall>fs. features_info env = Some fs \<longrightarrow> ''Es_Vacaciones'' \<notin> set fs"
    and "json rq = Inr (PDict kvs)" and "kvs \<noteq> []"
  shows "predict_simple env (rq\<lparr>json := Inr (PDict ((''Es_Vacaciones'', v) # kvs))\<rparr>) =
         predict_simple env rq"
proof -
  have a: "alinear env (PDict ((''Es_Vacaciones'', v) # kvs)) = alinear env (PDict kvs)"
  proof (cases "features_info env")
    case None
    then show ?thesis by (simp add: alinear_None)
  next
    case (Some fs)
    with assms(1) have "''Es_Vacaciones'' \<notin> set fs"
      by simp
    then have "fila_de fs ((''Es_Vacaciones'', v) # kvs) = fila_de fs kvs"
      unfolding fila_de_def by (intro map_cong) (auto simp: parametro_def)
    with Some show ?thesis
      by (simp add: alinear_dict)
  qed
  have "predict_simple_try env (rq\<lparr>json := Inr (PDict ((''Es_Vacaciones'', v) # kvs))\<rparr>) =
        predict_simple_try env rq"
    using assms(2,3) by (simp add: predict_simple_try_def a)
  then show ?thesis
    by (simp add: predict_simple_def)
qed

text \<open>
  Claim C9, as the code has it. A success of \<^verbatim>\<open>POST /predict/simple\<close> comes from the stages
  of \<^verbatim>\<open>POST /predict\<close>: the aligned row, the model, the correction engine, here always
  called with the holiday flag 0, and the categorizer, here applied to the rounded value.
  Its body has exactly the fields \<open>afluencia\<close> (the corrected value rounded to 2 decimals),
  \<open>categoria\<close> (the category of that \<open>afluencia\<close>) and \<open>success: true\<close>. For a loaded service,
  a body that is a non-empty object and a model that answers, it succeeds, whereas
  \<^verbatim>\<open>POST /predict\<close> succeeds exactly when the province is a string; where both succeed and
  \<open>Es_Vacaciones\<close> is absent or falsy, both return the same \<open>afluencia\<close>. When
  \<open>Es_Vacaciones\<close> is not a feature of the schema, setting it to any value in the request
  does not change the response of \<^verbatim>\<open>POST /predict/simple\<close>.
\<close>

theorem predict_simple_sin_vacaciones:
  "(fst (predict_simple env rq) = 200 \<longrightarrow>
      (\<exists>m fs kvs base.
         modelo env = Some m \<and> features_info env = Some fs \<and>
         json rq = Inr (PDict kvs) \<and> kvs \<noteq> [] \<and> m (fila_de fs kvs) = Inr base \<and>
         (let afluencia =
                round_py env (prediccion_corregida
                  (aplicar_correccion_avanzada env base
                     (parametro kvs ''provincia'' (PStr ''PICHINCHA''))
                     (parametro kvs ''dia_semana'' (PInt 1)) (PInt 0)
                     (parametro kvs ''Mes'' (PInt 1)))) 2
          in snd (predict_simple env rq) =
               PDict [(''afluencia'', PFloat afluencia),
                      (''categoria'', PStr (categoria (categorizar_afluencia afluencia))),
                      (''success'', PBool True)]))) \<and>
   (modelo env = Some m' \<and> features_info env = Some fs' \<and>
    json rq = Inr (PDict kvs') \<and> kvs' \<noteq> [] \<and> m' (fila_de fs' kvs') = Inr base' \<longrightarrow>
      fst (predict_simple env rq) = 200 \<and>
      (fst (predict env rq) = 200 \<longleftrightarrow>
         es_texto (parametro kvs' ''provincia'' (PStr ''PICHINCHA''))) \<and>
      (fst (predict env rq) = 200 \<and>
       \<not> truthy (parametro kvs' ''Es_Vacaciones'' (PInt 0)) \<longrightarrow>
         (let x = prediccion_corregida
                    (aplicar_correccion_avanzada env base'
                       (parametro kvs' ''provincia'' (PStr ''PICHINCHA''))
                       (parametro kvs' ''dia_semana'' (PInt 1)) (PInt 0)
                       (parametro kvs' ''Mes'' (PInt 1)))
          in campo2 ''prediccion'' ''afluencia'' (snd (predict env rq)) =
               Some (PFloat (round_py env x 2)) \<and>
             campo ''afluencia'' (snd (predict_simple env rq)) =
               Some (PFloat (round_py env x 2)) \<and>
             campo ''categoria'' (snd (predict_simple env rq)) =
               Some (PStr (categoria (categorizar_afluencia (round_py env x 2))))))) \<and>
   ((\<forall>fs. features_info env = Some fs \<longrightarrow> ''Es_Vacaciones'' \<notin> set fs) \<and>
    json rq = Inr (PDict kvs'') \<and> kvs'' \<noteq> [] \<longrightarrow>
      predict_simple env (rq\<lparr>json := Inr (PDict ((''Es_Vacaciones'', v) # kvs''))\<rparr>) =
      predict_simple env rq)"
proof (intro conjI impI)
  assume "fst (predict_simple env rq) = 200"
  from predict_simple_200 [OF this] obtain m fs kvs base where
    h: "modelo env = Some m" "features_info env = Some fs" "json rq = Inr (PDict kvs)"
       "kvs \<noteq> []" "m (fila_de fs kvs) = Inr base"
    by blast
  have "let afluencia =
                round_py env (prediccion_corregida
                  (aplicar_correccion_avanzada env base
                     (parametro kvs ''provincia'' (PStr ''PICHINCHA''))
                     (parametro kvs ''dia_semana'' (PInt 1)) (PInt 0)
                     (parametro kvs ''Mes'' (PInt 1)))) 2
          in snd (predict_simple env rq) =
               PDict [(''afluencia'', PFloat afluencia),
                      (''categoria'', PStr (categoria (categorizar_afluencia afluencia))),
                      (''success'', PBool True)]"
    by (simp add: predict_simple_def predict_simple_try_datos [OF h] Let_def)
  with h show "\<exists>m fs kvs base.
         modelo env = Some m \<and> features_info env = Some fs \<and>
         json rq = Inr (PDict kvs) \<and> kvs \<noteq> [] \<and> m (fila_de fs kvs) = Inr base \<and>
         (let afluencia =
                round_py env (prediccion_corregida
                  (aplicar_correccion_avanzada env base
                     (parametro kvs ''provincia'' (PStr ''PICHINCHA''))
                     (parametro kvs ''dia_semana'' (PInt 1)) (PInt 0)
                     (parametro kvs ''Mes'' (PInt 1)))) 2
          in snd (predict_simple env rq) =
               PDict [(''afluencia'', PFloat afluencia),
                      (''categoria'', PStr (categoria (categorizar_afluencia afluencia))),
                      (''success'', PBool True)])"
    by blast
next
  assume "modelo env = Some m' \<and> features_info env = Some fs' \<and>
    json rq = Inr (PDict kvs') \<and> kvs' \<noteq> [] \<and> m' (fila_de fs' kvs') = Inr base'"
  then have h: "modelo env = Some m'" "features_info env = Some fs'" "json rq = Inr (PDict kvs')"
       "kvs' \<noteq> []" "m' (fila_de fs' kvs') = Inr base'"
    by simp_all
  show "fst (predict_simple env rq) = 200"
    by (simp add: predict_simple_def predict_simple_try_datos [OF h] Let_def)
next
  assume "modelo env = Some m' \<and> features_info env = Some fs' \<and>
    json rq = Inr (PDict kvs') \<and> kvs' \<noteq> [] \<and> m' (fila_de fs' kvs') = Inr base'"
  then have h: "modelo env = Some m'" "features_info env = Some fs'" "json rq = Inr (PDict kvs')"
       "kvs' \<noteq> []" "m' (fila_de fs' kvs') = Inr base'"
    by simp_all
  show "fst (predict env rq) = 200 \<longleftrightarrow>
         es_texto (parametro kvs' ''provincia'' (PStr ''PICHINCHA''))"
    by (cases "parametro kvs' ''provincia'' (PStr ''PICHINCHA'')")
      (simp_all add: predict_def predict_try_datos [OF h] Let_def)
next
  assume "modelo env = Some m' \<and> features_info env = Some fs' \<and>
    json rq = Inr (PDict kvs') \<and> kvs' \<noteq> [] \<and> m' (fila_de fs' kvs') = Inr base'"
  then have h: "modelo env = Some m'" "features_info env = Some fs'" "json rq = Inr (PDict kvs')"
       "kvs' \<noteq> []" "m' (fila_de fs' kvs') = Inr base'"
    by simp_all
  assume b: "fst (predict env rq) = 200 \<and>
       \<not> truthy (parametro kvs' ''Es_Vacaciones'' (PInt 0))"
  then have v: "\<not> truthy (parametro kvs' ''Es_Vacaciones'' (PInt 0))"
    by simp
  from b obtain s where s: "parametro kvs' ''provincia'' (PStr ''PICHINCHA'') = PStr s"
    by (cases "parametro kvs' ''provincia'' (PStr ''PICHINCHA'')")
      (simp_all add: predict_def predict_try_datos [OF h] Let_def)
  show "let x = prediccion_corregida
                    (aplicar_correccion_avanzada env base'
                       (parametro kvs' ''provincia'' (PStr ''PICHINCHA''))
                       (parametro kvs' ''dia_semana'' (PInt 1)) (PInt 0)
                       (parametro kvs' ''Mes'' (PInt 1)))
          in campo2 ''prediccion'' ''afluencia'' (snd (predict env rq)) =
               Some (PFloat (round_py env x 2)) \<and>
             campo ''afluencia'' (snd (predict_simple env rq)) =
               Some (PFloat (round_py env x 2)) \<and>
             campo ''categoria'' (snd (predict_simple env rq)) =
               Some (PStr (categoria (categorizar_afluencia (round_py env x 2))))"
    using s
    by (simp add: predict_def predict_try_datos [OF h] predict_simple_def
        predict_simple_try_datos [OF h] Let_def campo2_def aplicar_vacaciones_falsy [OF v])
next
  assume "(\<forall>fs. features_info env = Some fs \<longrightarrow> ''Es_Vacaciones'' \<notin> set fs) \<and>
    json rq = Inr (PDict kvs'') \<and> kvs'' \<noteq> []"
  then show "predict_simple env (rq\<lparr>json := Inr (PDict ((''Es_Vacaciones'', v) # kvs''))\<rparr>) =
      predict_simple env rq"
    using predict_simple_sin_Es_Vacaciones by blast
qed

lemma predict_simple_provincia_5:
  "predict_simple env_ej rq_provincia_5 =
     (200, PDict [(''afluencia'', PFloat 35), (''categoria'', PStr ''MUY ALTA''),
                  (''success'', PBool True)])"
  using predict_simple_con_correccion_fallida
    [OF env_ej_campos(1,2) rq_provincia_5_campos(1), of base_ej AttributeError]
  by (simp add: rq_provincia_5_campos aplicar_try_no_texto redondeos_ej categoria_35)

theorem predict_simple_sin_vacaciones_witness:
  "fst (predict_simple env_ej rq_azuay) = 200 \<and>
   fst (predict env_ej rq_azuay) = 200 \<and>
   snd (predict_simple env_ej rq_azuay) =
     PDict [(''afluencia'', PFloat 35), (''categoria'', PStr ''MUY ALTA''),
            (''success'', PBool True)] \<and>
   campo ''afluencia'' (snd (predict_simple env_ej rq_azuay)) =
     campo2 ''prediccion'' ''afluencia'' (snd (predict env_ej rq_azuay)) \<and>
   predict_simple env_ej
     (rq_azuay\<lparr>json := Inr (PDict [(''Es_Vacaciones'', PInt 1), (''provincia'', PStr ''azuay''),
                                    (''dia_semana'', PInt 2), (''Mes'', PInt 11)])\<rparr>) =
   predict_simple env_ej rq_azuay"
proof -
  let ?kvs = "[(''provincia'', PStr ''azuay''), (''dia_semana'', PInt 2), (''Mes'', PInt 11)]"
  have v: "\<not> truthy (parametro ?kvs ''Es_Vacaciones'' (PInt 0))"
    by (simp add: rq_azuay_campos)
  have f: "\<forall>fs. features_info env_ej = Some fs \<longrightarrow> ''Es_Vacaciones'' \<notin> set fs"
    by (simp add: env_ej_campos(2))
  have t: "es_texto (parametro ?kvs ''provincia'' (PStr ''PICHINCHA''))"
    by (simp add: rq_azuay_campos)
  have x: "prediccion_corregida
             (aplicar_correccion_avanzada env_ej base_ej (PStr ''azuay'') (PInt 2) (PInt 0)
                (PInt 11)) = base_ej"
    by (simp add: aplicar_normal [OF aplicar_try_ej3])
  from predict_simple_sin_vacaciones
    [of env_ej rq_azuay "\<lambda>fila. Inr base_ej" "[''Mes'', ''temperatura'']" ?kvs base_ej ?kvs
        "PInt 1"]
    env_ej_campos(1,2) rq_azuay_campos v f t x redondeos_ej categoria_35
  show ?thesis
    by (simp add: Let_def)
qed

text \<open>
  Claim C9 as stated fails: on one request without \<open>Es_Vacaciones\<close> the two handlers answer
  different categories, and with the number 5 as province \<^verbatim>\<open>POST /predict\<close> answers 400
  where \<^verbatim>\<open>POST /predict/simple\<close> answers 200.
\<close>

theorem predict_simple_difiere_de_predict:
  "\<not> truthy (parametro [(''provincia'', PStr ''azuay''), (''dia_semana'', PInt 2),
                        (''Mes'', PInt 11)] ''Es_Vacaciones'' (PInt 0)) \<and>
   campo2 ''prediccion'' ''categoria'' (snd (predict env_ej rq_azuay)) = Some (PStr ''ALTA'') \<and>
   campo ''categoria'' (snd (predict_simple env_ej rq_azuay)) = Some (PStr ''MUY ALTA'') \<and>
   fst (predict env_ej rq_provincia_5) = 400 \<and>
   fst (predict_simple env_ej rq_provincia_5) = 200"
proof -
  have n: "\<not> es_texto (parametro [(''provincia'', PInt 5)] ''provincia'' (PStr ''PICHINCHA''))"
    by (simp add: rq_provincia_5_campos)
  have "fst (predict env_ej rq_provincia_5) = 400"
    using predict_provincia_no_texto [OF env_ej_campos(1,2) rq_provincia_5_campos(1) _ _ n, of base_ej]
    by simp
  then show ?thesis
    by (simp add: predict_ej predict_simple_ej predict_simple_provincia_5 campo2_def
        rq_azuay_campos)
qed

lemma env_sin_patrones_campos:
  "modelo env_sin_patrones = Some (\<lambda>fila. Inr base_ej)"
  "features_info env_sin_patrones = Some [''Mes'', ''temperatura'']"
  "patrones env_sin_patrones = PNone"
  "str_exn env_sin_patrones = (\<lambda>e. ''error'')"
  "upper_py env_sin_patrones = map upper_char"
  "round_py env_sin_patrones = py_round"
  by (simp_all add: env_sin_patrones_def env_ej_def)

lemma aplicar_try_sin_patrones:
  "aplicar_try env_sin_patrones base (PStr s) dia vac mes = Inl TypeError"
  by (simp add: aplicar_try_def correccion_provincia_def env_sin_patrones_campos(3))

lemma rq_julio_campos:
  "json rq_julio =
     Inr (PDict [(''provincia'', PStr ''azuay''), (''dia_semana'', PInt 2),
                 (''Es_Vacaciones'', PInt 1), (''Mes'', PInt 7)])"
  "parametro [(''provincia'', PStr ''azuay''), (''dia_semana'', PInt 2),
              (''Es_Vacaciones'', PInt 1), (''Mes'', PInt 7)]
     ''provincia'' (PStr ''PICHINCHA'') = PStr ''azuay''"
  "parametro [(''provincia'', PStr ''azuay''), (''dia_semana'', PInt 2),
              (''Es_Vacaciones'', PInt 1), (''Mes'', PInt 7)]
     ''dia_semana'' (PInt 1) = PInt 2"
  "parametro [(''provincia'', PStr ''azuay''), (''dia_semana'', PInt 2),
              (''Es_Vacaciones'', PInt 1), (''Mes'', PInt 7)]
     ''Es_Vacaciones'' (PInt 0) = PInt 1"
  "parametro [(''provincia'', PStr ''azuay''), (''dia_semana'', PInt 2),
              (''Es_Vacaciones'', PInt 1), (''Mes'', PInt 7)]
     ''Mes'' (PInt 1) = PInt 7"
  by (simp_all add: rq_julio_def parametro_def)

text \<open>
  Claim C6 as stated fails when the correction tables were not loaded, which no handler
  checks: for July the engine takes its \<^verbatim>\<open>except\<close> clause, the breakdown has no seasonal
  factor and the correction is the identity, where the table has 1.25.
\<close>

theorem factor_estacional_sin_patrones:
  "modelo env_sin_patrones \<noteq> None \<and> features_info env_sin_patrones \<noteq> None \<and>
   map_of factores_estacionales 7 = Some 1.25 \<and>
   aplicar_correccion_avanzada env_sin_patrones base_ej (PStr ''azuay'') (PInt 2) (PInt 0) (PInt 7) =
     \<lparr>prediccion_corregida = base_ej,
      factores_aplicados = PDict [(''error'', PStr ''error'')],
      factor_total = 1\<rparr> \<and>
   campo ''estacional''
     (factores_aplicados
        (aplicar_correccion_avanzada env_sin_patrones base_ej (PStr ''azuay'') (PInt 2) (PInt 0)
           (PInt 7))) = None"
  by (simp add: aplicar_error [OF aplicar_try_sin_patrones] env_sin_patrones_campos
      factores_estacionales_def)

text \<open>
  Claim C7 as stated fails when the correction tables were not loaded: with a truthy
  holiday flag the engine takes its \<^verbatim>\<open>except\<close> clause, the constant 1.15 is not multiplied
  in, and \<^verbatim>\<open>POST /predict\<close> answers 200 with the base prediction as \<open>afluencia\<close>.
\<close>

theorem vacaciones_sin_patrones:
  "truthy (PInt 1) \<and>
   aplicar_correccion_avanzada env_sin_patrones base_ej (PStr ''azuay'') (PInt 2) (PInt 1) (PInt 7) =
     \<lparr>prediccion_corregida = base_ej,
      factores_aplicados = PDict [(''error'', PStr ''error'')],
      factor_total = 1\<rparr> \<and>
   campo ''vacaciones''
     (factores_aplicados
        (aplicar_correccion_avanzada env_sin_patrones base_ej (PStr ''azuay'') (PInt 2) (PInt 1)
           (PInt 7))) = None \<and>
   fst (predict env_sin_patrones rq_julio) = 200 \<and>
   campo2 ''detalles'' ''es_vacaciones'' (snd (predict env_sin_patrones rq_julio)) =
     Some (PBool True) \<and>
   campo2 ''detalles'' ''factores_aplicados'' (snd (predict env_sin_patrones rq_julio)) =
     Some (PDict [(''error'', PStr ''error'')]) \<and>
   campo2 ''prediccion'' ''prediccion_base'' (snd (predict env_sin_patrones rq_julio)) =
     campo2 ''prediccion'' ''afluencia'' (snd (predict env_sin_patrones rq_julio))"
proof -
  have a: "aplicar_correccion_avanzada env_sin_patrones base_ej (PStr ''azuay'') (PInt 2) (PInt 1)
             (PInt 7) =
     \<lparr>prediccion_corregida = base_ej,
      factores_aplicados = PDict [(''error'', PStr ''error'')],
      factor_total = 1\<rparr>"
    by (simp add: aplicar_error [OF aplicar_try_sin_patrones] env_sin_patrones_campos)
  have p: "predict_try env_sin_patrones rq_julio =
    Inr (200, PDict
      [(''prediccion'', PDict
          [(''afluencia'', PFloat (round_py env_sin_patrones base_ej 2)),
           (''prediccion_base'', PFloat (round_py env_sin_patrones base_ej 2)),
           (''categoria'', PStr (categoria (categorizar_afluencia base_ej))),
           (''emoji'', PStr (emoji (categorizar_afluencia base_ej))),
           (''recomendacion'', PStr (recomendacion (categorizar_afluencia base_ej)))]),
       (''detalles'', PDict
          [(''provincia'', PStr (upper_py env_sin_patrones ''azuay'')),
           (''dia_semana'', PInt 2),
           (''mes'', PInt 7),
           (''es_vacaciones'', PBool True),
           (''factores_aplicados'', PDict [(''error'', PStr ''error'')]),
           (''factor_total'', PFloat (round_py env_sin_patrones 1 3))]),
       (''metadata'', PDict
          [(''timestamp'', PStr (now rq_julio)),
           (''modelo'', PStr ''RandomForest - Turismo Ecuador v1.0''),
           (''status'', PStr ''success'')])])"
    by (subst predict_try_datos [OF env_sin_patrones_campos(1,2) rq_julio_campos(1), of base_ej])
      (simp_all add: Let_def rq_julio_campos a)
  show ?thesis
    by (simp add: a predict_def p campo2_def)
qed

end
